theory Spec2Isabelle
  imports Complex_Main
begin

section \<open>Audio-reactive video: the audio-to-parameter mapping\<close>

text \<open>
  The Python sources compute with IEEE doubles. The embedding idealises them as real
  numbers: rounding is not modelled, and a division whose divisor is zero (which NumPy
  answers with \<open>inf\<close> or \<open>nan\<close> and a warning) is the error value \<open>NonFinite\<close>.
  A raised exception is an error value as well.
\<close>

datatype py_error = ValueError | IndexError | ZeroDivisionError | NonFinite | CvError

text \<open>The guard constant \<open>1e-8\<close> that the sources add to denominators and compare ranges with.\<close>

definition eps8 :: real where
  "eps8 = 1 / 100000000"

text \<open>\<open>np.clip(x, lo, hi)\<close> is \<open>minimum(maximum(x, lo), hi)\<close>.\<close>

definition np_clip :: "real \<Rightarrow> real \<Rightarrow> real \<Rightarrow> real" where
  "np_clip x lo hi = min (max x lo) hi"

text \<open>Division of a NumPy double: a zero divisor leaves the reals.\<close>

definition np_div :: "real \<Rightarrow> real \<Rightarrow> py_error + real" where
  "np_div a b = (if b = 0 then Inl NonFinite else Inr (a / b))"

text \<open>Python's \<open>int(x)\<close> on a float truncates toward zero.\<close>

definition py_int :: "real \<Rightarrow> int" where
  "py_int x = (if 0 \<le> x then \<lfloor>x\<rfloor> else \<lceil>x\<rceil>)"

subsection \<open>audio_analysis.py: normalize_energy\<close>

text \<open>
  \<open>np.min\<close> and \<open>np.max\<close> raise ValueError on an empty array; \<open>np.zeros_like\<close> keeps
  the length.
\<close>

definition normalize_energy :: "real list \<Rightarrow> py_error + real list" where
  "normalize_energy energy =
     (if energy = [] then Inl ValueError
      else
        let energy_min = Min (set energy);
            energy_max = Max (set energy);
            energy_range = energy_max - energy_min
        in if energy_range < eps8 then Inr (replicate (length energy) 0)
           else Inr (map (\<lambda>x. (x - energy_min) / energy_range) energy))"

subsection \<open>image_to_video.py: the frame timeline\<close>




subsection \<open>video_processor.py / image_to_video.py: zoom and rotation per frame\<close>

text \<open>
  \<open>nearest_beat_distance = np.min(np.abs(bass_beat_times - current_time))\<close>, taken only
  when the array of beat times is not empty.
\<close>

definition nearest_beat_distance :: "real list \<Rightarrow> real \<Rightarrow> real" where
  "nearest_beat_distance bass_beat_times current_time =
     Min (set (map (\<lambda>b. \<bar>b - current_time\<bar>) bass_beat_times))"

text \<open>
  \<open>(sub_bass_val * sub_bass_zoom + bass_val * bass_zoom) / (sub_bass_zoom + bass_zoom + 1e-8)\<close>
  followed by \<open>np.clip(_, 0.0, 1.0)\<close>: the bass intensity of the beat-triggered branch
  and the raw zoom intensity of the continuous branch.
\<close>

definition bass_intensity :: "real \<Rightarrow> real \<Rightarrow> real \<Rightarrow> real \<Rightarrow> py_error + real" where
  "bass_intensity sub_bass_val bass_val sub_bass_zoom bass_zoom =
     (case np_div (sub_bass_val * sub_bass_zoom + bass_val * bass_zoom)
                  (sub_bass_zoom + bass_zoom + eps8) of
        Inl e \<Rightarrow> Inl e
      | Inr r \<Rightarrow> Inr (np_clip r 0 1))"

text \<open>
  The zoom intensity after the sensitivity blend, \<open>zoom_intensity = (1.0 - intensity_sensitivity)
  + (intensity_sensitivity * zoom_intensity)\<close>, in the continuous branch.
\<close>

definition zoom_intensity_continuous ::
  "real \<Rightarrow> real \<Rightarrow> real \<Rightarrow> real \<Rightarrow> real \<Rightarrow> py_error + real" where
  "zoom_intensity_continuous sub_bass_val bass_val sub_bass_zoom bass_zoom intensity_sensitivity =
     (case bass_intensity sub_bass_val bass_val sub_bass_zoom bass_zoom of
        Inl e \<Rightarrow> Inl e
      | Inr zi \<Rightarrow> Inr ((1 - intensity_sensitivity) + intensity_sensitivity * zi))"

text \<open>The same in the beat-triggered branch, within the beat window.\<close>

definition zoom_intensity_beat ::
  "real \<Rightarrow> real \<Rightarrow> real \<Rightarrow> real \<Rightarrow> real \<Rightarrow> real \<Rightarrow> real \<Rightarrow> py_error + real" where
  "zoom_intensity_beat nbd beat_window sub_bass_val bass_val sub_bass_zoom bass_zoom
       intensity_sensitivity =
     (case np_div nbd beat_window of
        Inl e \<Rightarrow> Inl e
      | Inr q \<Rightarrow>
          let beat_proximity = np_clip (1 - q) 0 1
          in (case bass_intensity sub_bass_val bass_val sub_bass_zoom bass_zoom of
                Inl e \<Rightarrow> Inl e
              | Inr bi \<Rightarrow>
                  let zi = beat_proximity * (7 / 10) + bi * (3 / 10)
                  in Inr ((1 - intensity_sensitivity) + intensity_sensitivity * zi)))"

text \<open>The zoom of one output frame, both branches.\<close>

definition compute_zoom ::
  "bool \<Rightarrow> real list \<Rightarrow> real \<Rightarrow> real \<Rightarrow> real \<Rightarrow> real \<Rightarrow> real \<Rightarrow> real \<Rightarrow> real \<Rightarrow> real
     \<Rightarrow> py_error + real" where
  "compute_zoom beat_triggered_zoom bass_beat_times current_time beat_window
       sub_bass_val bass_val sub_bass_zoom bass_zoom intensity_sensitivity zoom_factor =
     (if beat_triggered_zoom \<and> length bass_beat_times > 0 then
        let nbd = nearest_beat_distance bass_beat_times current_time
        in if nbd \<le> beat_window then
             (case zoom_intensity_beat nbd beat_window sub_bass_val bass_val
                     sub_bass_zoom bass_zoom intensity_sensitivity of
                Inl e \<Rightarrow> Inl e
              | Inr zi \<Rightarrow> Inr (1 + (zoom_factor - 1) * zi))
           else Inr 1
      else
        (case zoom_intensity_continuous sub_bass_val bass_val sub_bass_zoom bass_zoom
                intensity_sensitivity of
           Inl e \<Rightarrow> Inl e
         | Inr zi \<Rightarrow> Inr (1 + (zoom_factor - 1) * zi)))"

text \<open>
  \<open>rotation_intensity\<close>: the treble mix over \<open>treble_rotation + high_treble_rotation + 1e-8\<close>,
  clipped, then blended with the sensitivity.
\<close>

definition rotation_intensity ::
  "real \<Rightarrow> real \<Rightarrow> real \<Rightarrow> real \<Rightarrow> real \<Rightarrow> py_error + real" where
  "rotation_intensity treble_val high_treble_val treble_rotation high_treble_rotation
       intensity_sensitivity =
     (case np_div (treble_val * treble_rotation + high_treble_val * high_treble_rotation)
                  (treble_rotation + high_treble_rotation + eps8) of
        Inl e \<Rightarrow> Inl e
      | Inr r \<Rightarrow>
          Inr ((1 - intensity_sensitivity) + intensity_sensitivity * np_clip r 0 1))"

subsection \<open>gui_preview_pyqt5.py: apply_temporal_smoothing\<close>





subsection \<open>Resampling the band curves onto the output frames\<close>

text \<open>
  \<open>np.linspace(start, stop, num)\<close> with the default end point: \<open>num\<close> samples with the
  step \<open>(stop - start) / (num - 1)\<close>; a negative \<open>num\<close> raises ValueError, one sample is
  \<open>start\<close> alone.
\<close>

definition np_linspace :: "real \<Rightarrow> real \<Rightarrow> int \<Rightarrow> py_error + real list" where
  "np_linspace start stop num =
     (if num < 0 then Inl ValueError
      else if num = 1 then Inr [start]
      else Inr (map (\<lambda>i. start + real i * ((stop - start) / real (nat num - 1))) [0..<nat num]))"

text \<open>
  \<open>np.interp(x, xp, fp)\<close> for increasing sample points \<open>xp\<close>: below the first point the
  first value, above the last point the last value, otherwise the segment \<open>j\<close> with
  \<open>xp[j] \<le> x < xp[j+1]\<close> is found and the value is \<open>fp[j]\<close> when \<open>x = xp[j]\<close> or \<open>j\<close>
  is the last index, and \<open>slope * (x - xp[j]) + fp[j]\<close> otherwise. The scan below finds
  the segment from the left; NumPy finds the same one by bisection.
\<close>

fun interp_scan :: "real \<Rightarrow> real list \<Rightarrow> real list \<Rightarrow> real" where
  "interp_scan x (x0 # x1 # xs) (y0 # y1 # ys) =
     (if x < x1 then (if x0 = x then y0 else (y1 - y0) / (x1 - x0) * (x - x0) + y0)
      else interp_scan x (x1 # xs) (y1 # ys))"
| "interp_scan x [x0] (y0 # ys) = y0"
| "interp_scan x xs ys = 0"

definition interp_point :: "real \<Rightarrow> real list \<Rightarrow> real list \<Rightarrow> real" where
  "interp_point x xp fp =
     (if last xp < x then last fp
      else if x < hd xp then hd fp
      else interp_scan x xp fp)"

text \<open>
  An empty \<open>xp\<close> and arrays of different lengths raise ValueError; the result has one
  value per queried point.
\<close>

definition np_interp :: "real list \<Rightarrow> real list \<Rightarrow> real list \<Rightarrow> py_error + real list" where
  "np_interp xs xp fp =
     (if xp = [] \<or> length xp \<noteq> length fp then Inl ValueError
      else Inr (map (\<lambda>x. interp_point x xp fp) xs))"

text \<open>
  \<open>process_video_enhanced\<close> and \<open>process_image_to_video\<close>:
  \<open>video_frame_times = np.linspace(0, duration, total_frames)\<close> and
  \<open>np.interp(video_frame_times, frame_times, energy)\<close> for every band curve.
\<close>

definition resample_curve ::
  "real \<Rightarrow> int \<Rightarrow> real list \<Rightarrow> real list \<Rightarrow> py_error + real list" where
  "resample_curve duration n_frames frame_times energy =
     (case np_linspace 0 duration n_frames of
        Inl e \<Rightarrow> Inl e
      | Inr video_frame_times \<Rightarrow> np_interp video_frame_times frame_times energy)"

text \<open>
  The round trip of the specification: the resampled curve is interpolated back from the
  output frame times onto the spectrogram frame times. The sources only resample forward.
\<close>

definition resample_roundtrip ::
  "real \<Rightarrow> int \<Rightarrow> real list \<Rightarrow> real list \<Rightarrow> py_error + real list" where
  "resample_roundtrip duration n_frames frame_times energy =
     (case np_linspace 0 duration n_frames of
        Inl e \<Rightarrow> Inl e
      | Inr video_frame_times \<Rightarrow>
          (case np_interp video_frame_times frame_times energy of
             Inl e \<Rightarrow> Inl e
           | Inr resampled \<Rightarrow> np_interp frame_times video_frame_times resampled))"

subsection \<open>audio_analysis.py: detect_peaks\<close>









text \<open>
  The two inner loops of the distance selection. \<open>suppress_earlier\<close> runs \<open>k\<close> from
  \<open>j - 1\<close> down to 0 (its counter is \<open>k + 1\<close>), \<open>suppress_later\<close> from \<open>j + 1\<close> up,
  each clearing flags while the peak \<open>k\<close> is less than \<open>distance\<close> away from peak \<open>j\<close>.
\<close>

fun suppress_earlier :: "nat list \<Rightarrow> int \<Rightarrow> nat \<Rightarrow> nat \<Rightarrow> bool list \<Rightarrow> bool list" where
  "suppress_earlier peaks distance j 0 keep = keep"
| "suppress_earlier peaks distance j (Suc k) keep =
     (if int (peaks ! j) - int (peaks ! k) < distance
      then suppress_earlier peaks distance j k (keep[k := False])
      else keep)"

function suppress_later :: "nat list \<Rightarrow> int \<Rightarrow> nat \<Rightarrow> nat \<Rightarrow> bool list \<Rightarrow> bool list" where
  "suppress_later peaks distance j k keep =
     (if k < length peaks \<and> int (peaks ! k) - int (peaks ! j) < distance
      then suppress_later peaks distance j (Suc k) (keep[k := False])
      else keep)"
  by pat_completeness auto
termination
  by (relation "measure (\<lambda>(peaks, distance, j, k, keep). length peaks - k)") auto

declare suppress_later.simps [simp del]

text \<open>One round of the outer loop: a peak already cleared is skipped.\<close>

definition process_peak :: "nat list \<Rightarrow> int \<Rightarrow> bool list \<Rightarrow> nat \<Rightarrow> bool list" where
  "process_peak peaks distance keep j =
     (if \<not> keep ! j then keep
      else suppress_later peaks distance j (Suc j) (suppress_earlier peaks distance j j keep))"






section \<open>The frame effects compositor (video_processor.py)\<close>

text \<open>
  Frames are values of an arbitrary type \<open>'f\<close>, the state of NumPy's global random
  generator a value of type \<open>'r\<close>. The OpenCV and NumPy array primitives that
  \<open>zoom_frame\<close>, \<open>rotate_frame\<close>, \<open>apply_color_grade\<close> and \<open>apply_motion_blur\<close> call,
  and the artistic, corruption, stylization and retro stages and \<open>blend_layers\<close> that
  \<open>apply_effects\<close> calls, are the fields of a record: what is proved about
  \<open>apply_effects\<close> for every such record holds whatever these functions compute.
  A stage that draws random numbers takes the generator state and returns the new one.
  \<open>frame.copy()\<close> is the identity on values.
\<close>

record ('f, 'r) backend =
  frame_hw :: "'f \<Rightarrow> nat \<times> nat"
  frame_crop :: "'f \<Rightarrow> int \<Rightarrow> int \<Rightarrow> int \<Rightarrow> int \<Rightarrow> 'f"
  cv_resize :: "'f \<Rightarrow> nat \<Rightarrow> nat \<Rightarrow> py_error + 'f"
  cv_warp_rotation :: "'f \<Rightarrow> nat \<times> nat \<Rightarrow> real \<Rightarrow> nat \<Rightarrow> nat \<Rightarrow> py_error + 'f"
  cv_bgr2hsv :: "'f \<Rightarrow> py_error + 'f"
  hsv_shift_hue :: "'f \<Rightarrow> real \<Rightarrow> 'f"
  hsv_scale_saturation :: "'f \<Rightarrow> real \<Rightarrow> 'f"
  hsv_scale_value :: "'f \<Rightarrow> real \<Rightarrow> 'f"
  cv_hsv2bgr :: "'f \<Rightarrow> py_error + 'f"
  cv_gaussian_blur :: "'f \<Rightarrow> int \<Rightarrow> py_error + 'f"
  apply_pixel_sorting :: "'f \<Rightarrow> real \<Rightarrow> 'r \<Rightarrow> py_error + 'f \<times> 'r"
  apply_kaleidoscope :: "'f \<Rightarrow> real \<Rightarrow> py_error + 'f"
  apply_wave_distortion :: "'f \<Rightarrow> real \<Rightarrow> 'r \<Rightarrow> py_error + 'f \<times> 'r"
  apply_glitch_effect :: "'f \<Rightarrow> real \<Rightarrow> 'r \<Rightarrow> py_error + 'f \<times> 'r"
  apply_data_corruption :: "'f \<Rightarrow> real \<Rightarrow> 'r \<Rightarrow> py_error + 'f \<times> 'r"
  apply_artifacts_effect :: "'f \<Rightarrow> real \<Rightarrow> 'r \<Rightarrow> py_error + 'f \<times> 'r"
  apply_posterization :: "'f \<Rightarrow> real \<Rightarrow> py_error + 'f"
  apply_edge_detection_overlay :: "'f \<Rightarrow> real \<Rightarrow> py_error + 'f"
  apply_vhs_degradation :: "'f \<Rightarrow> real \<Rightarrow> 'r \<Rightarrow> py_error + 'f \<times> 'r"
  apply_scan_lines_crt :: "'f \<Rightarrow> real \<Rightarrow> py_error + 'f"
  blend_layers :: "'f \<Rightarrow> 'f \<Rightarrow> string \<Rightarrow> real \<Rightarrow> py_error + 'f"

text \<open>The numeric arguments of \<open>apply_effects\<close>.\<close>

record effect_params =
  zoom :: real
  rotation :: real
  hue_shift :: real
  saturation :: real
  brightness :: real
  blur_intensity :: real
  glitch_intensity :: real
  artifacts_intensity :: real
  pixel_sort_intensity :: real
  kaleidoscope_intensity :: real
  wave_distortion_intensity :: real
  vhs_intensity :: real
  posterization_intensity :: real
  edge_detection_intensity :: real
  data_corruption_intensity :: real
  scan_lines_intensity :: real

text \<open>Sequencing: an exception raised by a step ends the computation.\<close>

definition and_then :: "'e + 'a \<Rightarrow> ('a \<Rightarrow> 'e + 'b) \<Rightarrow> 'e + 'b" where
  "and_then r f = (case r of Inl e \<Rightarrow> Inl e | Inr a \<Rightarrow> f a)"

text \<open>
  \<open>zoom_frame\<close>: a zoom factor of at most 1 returns the frame itself; otherwise the
  centre crop of \<open>int(h / zoom_factor)\<close> by \<open>int(w / zoom_factor)\<close> pixels is resized
  to \<open>(w, h)\<close>.
\<close>

definition zoom_frame :: "('f, 'r) backend \<Rightarrow> 'f \<Rightarrow> real \<Rightarrow> py_error + 'f" where
  "zoom_frame bk frame zoom_factor =
     (if zoom_factor \<le> 1 then Inr frame
      else
        let (h, w) = frame_hw bk frame;
            crop_h = py_int (real h / zoom_factor);
            crop_w = py_int (real w / zoom_factor);
            start_y = (int h - crop_h) div 2;
            start_x = (int w - crop_w) div 2;
            cropped = frame_crop bk frame start_y (start_y + crop_h) start_x (start_x + crop_w)
        in cv_resize bk cropped w h)"

text \<open>
  \<open>rotate_frame\<close>: an angle below 0.01 degrees in absolute value returns the frame
  itself; otherwise the frame is rotated about \<open>(w // 2, h // 2)\<close> into a \<open>(w, h)\<close> image.
\<close>

definition rotate_frame :: "('f, 'r) backend \<Rightarrow> 'f \<Rightarrow> real \<Rightarrow> py_error + 'f" where
  "rotate_frame bk frame angle_degrees =
     (if \<bar>angle_degrees\<bar> < 1 / 100 then Inr frame
      else
        let (h, w) = frame_hw bk frame;
            center = (w div 2, h div 2)
        in cv_warp_rotation bk frame center angle_degrees w h)"

text \<open>
  \<open>apply_color_grade\<close>: with hue shift 0 and both multipliers 1 the frame itself is
  returned; otherwise the frame goes to HSV, each adjustment that is not neutral is
  applied, and the result goes back to BGR.
\<close>

definition apply_color_grade ::
  "('f, 'r) backend \<Rightarrow> 'f \<Rightarrow> real \<Rightarrow> real \<Rightarrow> real \<Rightarrow> py_error + 'f" where
  "apply_color_grade bk frame hue saturation_mult brightness_mult =
     (if hue = 0 \<and> saturation_mult = 1 \<and> brightness_mult = 1 then Inr frame
      else
        and_then (cv_bgr2hsv bk frame) (\<lambda>hsv.
          let hsv1 = (if hue \<noteq> 0 then hsv_shift_hue bk hsv hue else hsv);
              hsv2 = (if saturation_mult \<noteq> 1 then hsv_scale_saturation bk hsv1 saturation_mult
                      else hsv1);
              hsv3 = (if brightness_mult \<noteq> 1 then hsv_scale_value bk hsv2 brightness_mult
                      else hsv2)
          in cv_hsv2bgr bk hsv3))"

text \<open>
  \<open>apply_motion_blur\<close>: the kernel size \<open>int(1 + intensity * 15)\<close> is made odd; a
  kernel of size 1 or an intensity of at most 0 returns the frame itself.
\<close>

definition apply_motion_blur :: "('f, 'r) backend \<Rightarrow> 'f \<Rightarrow> real \<Rightarrow> py_error + 'f" where
  "apply_motion_blur bk frame intensity =
     (if intensity \<le> 0 then Inr frame
      else
        let k = py_int (1 + intensity * 15);
            kernel_size = (if k mod 2 = 0 then k + 1 else k)
        in if kernel_size \<le> 1 then Inr frame
           else cv_gaussian_blur bk frame kernel_size)"

text \<open>
  A stage of \<open>apply_effects\<close>: \<open>if intensity > 0.0: frame = self.stage(frame, intensity)\<close>,
  for a stage that draws random numbers and for one that does not.
\<close>

definition random_stage ::
  "real \<Rightarrow> ('f \<Rightarrow> real \<Rightarrow> 'r \<Rightarrow> py_error + 'f \<times> 'r) \<Rightarrow> 'f \<times> 'r \<Rightarrow> py_error + 'f \<times> 'r" where
  "random_stage intensity stage fr =
     (if intensity > 0 then stage (fst fr) intensity (snd fr) else Inr fr)"

definition plain_stage ::
  "real \<Rightarrow> ('f \<Rightarrow> real \<Rightarrow> py_error + 'f) \<Rightarrow> 'f \<times> 'r \<Rightarrow> py_error + 'f \<times> 'r" where
  "plain_stage intensity stage fr =
     (if intensity > 0 then and_then (stage (fst fr) intensity) (\<lambda>f. Inr (f, snd fr))
      else Inr fr)"

text \<open>
  \<open>apply_effects\<close>. In layer mode the original is zoomed and rotated first and kept
  for the final blend; then the frame runs through the pipeline in the fixed order of
  the source; the blend happens in layer mode only.
\<close>

definition apply_effects ::
  "('f, 'r) backend \<Rightarrow> 'f \<Rightarrow> effect_params \<Rightarrow> string \<Rightarrow> string \<Rightarrow> real \<Rightarrow> 'r
     \<Rightarrow> py_error + 'f \<times> 'r" where
  "apply_effects bk frame p effect_mode blend_mode layer_opacity rng =
     and_then
       (if effect_mode = ''layer''
        then and_then (zoom_frame bk frame (zoom p)) (\<lambda>z.
             and_then (rotate_frame bk z (rotation p)) (\<lambda>r. Inr (Some r)))
        else Inr None)
       (\<lambda>original_transformed.
     and_then (zoom_frame bk frame (zoom p)) (\<lambda>f1.
     and_then (rotate_frame bk f1 (rotation p)) (\<lambda>f2.
     and_then (apply_color_grade bk f2 (hue_shift p) (saturation p) (brightness p)) (\<lambda>f3.
     and_then (random_stage (pixel_sort_intensity p) (apply_pixel_sorting bk) (f3, rng)) (\<lambda>s1.
     and_then (plain_stage (kaleidoscope_intensity p) (apply_kaleidoscope bk) s1) (\<lambda>s2.
     and_then (random_stage (wave_distortion_intensity p) (apply_wave_distortion bk) s2) (\<lambda>s3.
     and_then (random_stage (glitch_intensity p) (apply_glitch_effect bk) s3) (\<lambda>s4.
     and_then (random_stage (data_corruption_intensity p) (apply_data_corruption bk) s4) (\<lambda>s5.
     and_then (random_stage (artifacts_intensity p) (apply_artifacts_effect bk) s5) (\<lambda>s6.
     and_then (plain_stage (posterization_intensity p) (apply_posterization bk) s6) (\<lambda>s7.
     and_then (plain_stage (edge_detection_intensity p) (apply_edge_detection_overlay bk) s7) (\<lambda>s8.
     and_then (random_stage (vhs_intensity p) (apply_vhs_degradation bk) s8) (\<lambda>s9.
     and_then (plain_stage (scan_lines_intensity p) (apply_scan_lines_crt bk) s9) (\<lambda>s10.
     and_then (plain_stage (blur_intensity p) (apply_motion_blur bk) s10) (\<lambda>s11.
       (case original_transformed of
          Some base \<Rightarrow>
            and_then (blend_layers bk base (fst s11) blend_mode layer_opacity)
              (\<lambda>blended. Inr (blended, snd s11))
        | None \<Rightarrow> Inr s11))))))))))))))))"

text \<open>The neutral arguments: the defaults of \<open>apply_effects\<close>.\<close>

definition neutral_params :: effect_params where
  "neutral_params =
     \<lparr> zoom = 1, rotation = 0, hue_shift = 0, saturation = 1, brightness = 1,
       blur_intensity = 0, glitch_intensity = 0, artifacts_intensity = 0,
       pixel_sort_intensity = 0, kaleidoscope_intensity = 0, wave_distortion_intensity = 0,
       vhs_intensity = 0, posterization_intensity = 0, edge_detection_intensity = 0,
       data_corruption_intensity = 0, scan_lines_intensity = 0 \<rparr>"

section \<open>The shapes of the frames in the effects pipeline\<close>

text \<open>
  For the shape of the frame an effect returns, an array is represented by its shape
  alone, a frame by \<open>(height, width, channels)\<close>, a single channel or a mask by
  \<open>(height, width)\<close>; pixel values are not modelled. Every OpenCV and NumPy call is
  represented by its rule for shapes, raising where the library raises on the grounds of
  a shape; the frames considered have at least two channels (OpenCV drops the channel
  axis of a one-channel result). A statement that changes pixel values of an existing
  array in place (an arithmetic update of a slice, a sort within a strip) leaves the shape
  as it is and is not represented, unless it assigns one slice to another: then the two
  shapes must be compatible, as NumPy's broadcasting demands, or the assignment raises.

  The random generator is a list of numbers consumed from the left, one per scalar draw
  (an exhausted list draws zeros); array-valued draws (noise, random blocks, a random
  choice of columns, a shuffle) only fill values and consume nothing here.
\<close>

type_synonym shape = "nat \<times> nat \<times> nat"

type_synonym rng = "real list"

text \<open>\<open>np.random.random()\<close>: the next draw, reduced to \<open>[0, 1)\<close>.\<close>

definition next_random :: "rng \<Rightarrow> real \<times> rng" where
  "next_random g = (case g of [] \<Rightarrow> (0, []) | u # rest \<Rightarrow> (u - of_int \<lfloor>u\<rfloor>, rest))"

text \<open>\<open>np.random.randint(low, high)\<close>: an integer in \<open>[low, high)\<close>, ValueError when the range is empty.\<close>

definition randint :: "int \<Rightarrow> int \<Rightarrow> rng \<Rightarrow> py_error + int \<times> rng" where
  "randint low high g =
     (if high \<le> low then Inl ValueError
      else case next_random g of (u, rest) \<Rightarrow> Inr (low + \<lfloor>u * of_int (high - low)\<rfloor>, rest))"

text \<open>The length of the slice \<open>a[start:stop]\<close> of an axis of length \<open>n\<close>.\<close>

definition slice_bound :: "nat \<Rightarrow> int \<Rightarrow> int" where
  "slice_bound n i = (if i < 0 then max (int n + i) 0 else min i (int n))"

definition slice_len :: "nat \<Rightarrow> int \<Rightarrow> int \<Rightarrow> nat" where
  "slice_len n start stop = nat (slice_bound n stop - slice_bound n start)"

text \<open>\<open>np.clip\<close> on integers.\<close>

definition int_clip :: "int \<Rightarrow> int \<Rightarrow> int \<Rightarrow> int" where
  "int_clip x lo hi = min (max x lo) hi"

text \<open>
  Broadcasting. An assignment \<open>dst[...] = src\<close> needs every axis of the source to have
  the length of the destination's axis or length 1; an arithmetic operation of two
  arrays needs equal lengths or a length 1 on either side and gives the longer one.
\<close>

definition axis_fits :: "nat \<Rightarrow> nat \<Rightarrow> bool" where
  "axis_fits src dst \<longleftrightarrow> src = dst \<or> src = 1"

definition assign_slice :: "shape \<Rightarrow> shape \<Rightarrow> py_error + unit" where
  "assign_slice dst src =
     (case (dst, src) of ((dh, dw, dc), (sh, sw, sc)) \<Rightarrow>
        if axis_fits sh dh \<and> axis_fits sw dw \<and> axis_fits sc dc then Inr () else Inl ValueError)"

definition broadcast_axis :: "nat \<Rightarrow> nat \<Rightarrow> py_error + nat" where
  "broadcast_axis a b = (if a = b \<or> b = 1 then Inr a else if a = 1 then Inr b else Inl ValueError)"

definition broadcast_shapes :: "shape \<Rightarrow> shape \<Rightarrow> py_error + shape" where
  "broadcast_shapes a b =
     (case (a, b) of ((ah, aw, ac), (bh, bw, bc)) \<Rightarrow>
        and_then (broadcast_axis ah bh) (\<lambda>h.
        and_then (broadcast_axis aw bw) (\<lambda>w.
        and_then (broadcast_axis ac bc) (\<lambda>c. Inr (h, w, c)))))"

subsection \<open>Shape rules of the OpenCV calls\<close>

text \<open>\<open>frame[y0:y1, x0:x1]\<close>.\<close>

definition crop_shape :: "shape \<Rightarrow> int \<Rightarrow> int \<Rightarrow> int \<Rightarrow> int \<Rightarrow> shape" where
  "crop_shape s y0 y1 x0 x1 = (case s of (h, w, c) \<Rightarrow> (slice_len h y0 y1, slice_len w x0 x1, c))"

text \<open>\<open>cv2.resize(src, (width, height))\<close>: an empty source or target size is an error.\<close>

definition resize_shape :: "shape \<Rightarrow> nat \<Rightarrow> nat \<Rightarrow> py_error + shape" where
  "resize_shape s width height =
     (case s of (h, w, c) \<Rightarrow>
        if h = 0 \<or> w = 0 \<or> width = 0 \<or> height = 0 then Inl CvError
        else Inr (height, width, c))"

text \<open>\<open>cv2.warpAffine(src, M, (width, height))\<close> of a frame and of a single channel.\<close>

definition warp_affine_shape :: "shape \<Rightarrow> nat \<Rightarrow> nat \<Rightarrow> py_error + shape" where
  "warp_affine_shape s width height =
     (case s of (h, w, c) \<Rightarrow>
        if h = 0 \<or> w = 0 \<or> width = 0 \<or> height = 0 then Inl CvError
        else Inr (height, width, c))"

definition warp_affine_channel :: "nat \<times> nat \<Rightarrow> nat \<Rightarrow> nat \<Rightarrow> py_error + nat \<times> nat" where
  "warp_affine_channel s width height =
     (case s of (h, w) \<Rightarrow>
        if h = 0 \<or> w = 0 \<or> width = 0 \<or> height = 0 then Inl CvError
        else Inr (height, width))"

text \<open>
  \<open>cv2.cvtColor\<close> between BGR and HSV: three or four channels in, three out.
  \<open>COLOR_BGR2GRAY\<close> gives a single channel, \<open>COLOR_GRAY2BGR\<close> three channels.
\<close>

definition cvt_color_shape :: "shape \<Rightarrow> py_error + shape" where
  "cvt_color_shape s =
     (case s of (h, w, c) \<Rightarrow>
        if h = 0 \<or> w = 0 \<or> (c \<noteq> 3 \<and> c \<noteq> 4) then Inl CvError else Inr (h, w, 3))"

definition bgr2gray_shape :: "shape \<Rightarrow> py_error + nat \<times> nat" where
  "bgr2gray_shape s =
     (case s of (h, w, c) \<Rightarrow>
        if h = 0 \<or> w = 0 \<or> (c \<noteq> 3 \<and> c \<noteq> 4) then Inl CvError else Inr (h, w))"

definition gray2bgr_shape :: "nat \<times> nat \<Rightarrow> shape" where
  "gray2bgr_shape s = (case s of (h, w) \<Rightarrow> (h, w, 3))"

text \<open>\<open>cv2.GaussianBlur\<close> keeps the shape; the kernel size must be odd and positive.\<close>

definition gaussian_blur_shape :: "shape \<Rightarrow> int \<Rightarrow> py_error + shape" where
  "gaussian_blur_shape s kernel_size =
     (case s of (h, w, c) \<Rightarrow>
        if h = 0 \<or> w = 0 \<or> kernel_size \<le> 0 \<or> kernel_size mod 2 = 0 then Inl CvError
        else Inr (h, w, c))"

text \<open>\<open>cv2.remap(src, map_x, map_y)\<close>: the result has the shape of the maps and the channels of the source.\<close>

definition remap_shape :: "shape \<Rightarrow> nat \<times> nat \<Rightarrow> py_error + shape" where
  "remap_shape s m =
     (case (s, m) of ((h, w, c), (mh, mw)) \<Rightarrow>
        if h = 0 \<or> w = 0 \<or> mh = 0 \<or> mw = 0 then Inl CvError else Inr (mh, mw, c))"

text \<open>\<open>cv2.addWeighted(a, alpha, b, beta, 0)\<close>: both arrays must have the same shape.\<close>

definition add_weighted_shape :: "shape \<Rightarrow> shape \<Rightarrow> py_error + shape" where
  "add_weighted_shape a b = (if a = b then Inr a else Inl CvError)"

text \<open>
  \<open>b, g, r = cv2.split(a)\<close> unpacks exactly three channels (ValueError otherwise);
  \<open>cv2.merge\<close> of three channels of one size gives three channels.
\<close>

definition split_bgr_shape :: "shape \<Rightarrow> py_error + nat \<times> nat" where
  "split_bgr_shape s = (case s of (h, w, c) \<Rightarrow> if c = 3 then Inr (h, w) else Inl ValueError)"

definition merge3_shape :: "nat \<times> nat \<Rightarrow> nat \<times> nat \<Rightarrow> nat \<times> nat \<Rightarrow> py_error + shape" where
  "merge3_shape a b c =
     (if a = b \<and> b = c then Inr (fst a, snd a, 3) else Inl CvError)"

text \<open>\<open>a[:, :, k]\<close> raises IndexError when the frame has no channel \<open>k\<close>.\<close>

definition channel_shape :: "shape \<Rightarrow> nat \<Rightarrow> py_error + nat \<times> nat" where
  "channel_shape s k = (case s of (h, w, c) \<Rightarrow> if k < c then Inr (h, w) else Inl IndexError)"

subsection \<open>Shapes through the effect functions\<close>

text \<open>
  \<open>apply_pixel_sorting\<close>: the frame is copied, converted to HSV for the brightness, one
  random number chooses rows or columns, and every sorted column or row is written back
  to the slice it was read from.
\<close>

definition pixel_sorting_shape :: "shape \<Rightarrow> real \<Rightarrow> rng \<Rightarrow> py_error + shape \<times> rng" where
  "pixel_sorting_shape s intensity g =
     (if intensity \<le> 0 then Inr (s, g)
      else and_then (cvt_color_shape s) (\<lambda>hsv. Inr (s, snd (next_random g))))"

text \<open>
  \<open>apply_kaleidoscope\<close>: every segment rotates the frame into a \<open>(w, h)\<close> image and
  copies its three channels under a mask into \<open>zeros_like(frame)\<close>; the result is
  \<open>addWeighted\<close> of the frame and that image. There are at least two segments.
\<close>

definition kaleidoscope_shape :: "shape \<Rightarrow> real \<Rightarrow> py_error + shape" where
  "kaleidoscope_shape s intensity =
     (if intensity \<le> 0 then Inr s
      else case s of (h, w, c) \<Rightarrow>
        and_then (warp_affine_shape s w h) (\<lambda>rotated.
        and_then (channel_shape rotated 2) (\<lambda>rotated_c.
        and_then (channel_shape s 2) (\<lambda>kaleidoscope_c.
          if rotated_c = kaleidoscope_c then add_weighted_shape s s else Inl ValueError))))"

text \<open>\<open>apply_wave_distortion\<close>: two random phases, then \<open>cv2.remap\<close> with maps of shape \<open>(h, w)\<close>.\<close>

definition wave_distortion_shape :: "shape \<Rightarrow> real \<Rightarrow> rng \<Rightarrow> py_error + shape \<times> rng" where
  "wave_distortion_shape s intensity g =
     (if intensity \<le> 0 then Inr (s, g)
      else case s of (h, w, c) \<Rightarrow>
        and_then (remap_shape s (h, w)) (\<lambda>distorted.
          Inr (distorted, snd (next_random (snd (next_random g))))))"

text \<open>
  \<open>apply_glitch_effect\<close>, the loop over the random slices: a shifted slice is
  assigned to the slice at \<open>slice_x\<close> when \<open>0 \<le> slice_x + shift < w - slice_width\<close>.
\<close>

fun glitch_slices :: "nat \<Rightarrow> shape \<Rightarrow> real \<Rightarrow> rng \<Rightarrow> py_error + rng" where
  "glitch_slices 0 s intensity g = Inr g"
| "glitch_slices (Suc n) s intensity g =
     (case s of (h, w, c) \<Rightarrow>
        and_then (randint 0 (int h) g) (\<lambda>(slice_y, g1).
        and_then (randint 1 (py_int (intensity * 20) + 1) g1) (\<lambda>(slice_height, g2).
        and_then (randint 0 (max 1 (int w - 50)) g2) (\<lambda>(slice_x, g3).
        and_then (randint 10 50 g3) (\<lambda>(slice_width, g4).
          case next_random g4 of (u, g5) \<Rightarrow>
            if u > 1 / 2 then
              and_then (randint (- 20) 21 g5) (\<lambda>(shift, g6).
                if 0 \<le> slice_x + shift \<and> slice_x + shift < int w - slice_width then
                  and_then
                    (assign_slice
                       (crop_shape s slice_y (slice_y + slice_height)
                          slice_x (slice_x + slice_width))
                       (crop_shape s slice_y (slice_y + slice_height)
                          (slice_x + shift) (slice_x + shift + slice_width)))
                    (\<lambda>u. glitch_slices n s intensity g6)
                else glitch_slices n s intensity g6)
            else glitch_slices n s intensity g5)))))"

text \<open>
  \<open>apply_glitch_effect\<close>: above 0.3 the red channel is shifted and written back, above
  0.5 the random slices, above 0.4 the frame is split into three channels, two of them
  are shifted, and the three are merged.
\<close>

definition glitch_shape :: "shape \<Rightarrow> real \<Rightarrow> rng \<Rightarrow> py_error + shape \<times> rng" where
  "glitch_shape s intensity g =
     (if intensity \<le> 0 then Inr (s, g)
      else case s of (h, w, c) \<Rightarrow>
        and_then
          (if intensity > 3 / 10 then
             and_then (channel_shape s 2) (\<lambda>red_channel.
             and_then (randint (- py_int (intensity * 20)) (py_int (intensity * 20) + 1) g)
               (\<lambda>(shift_x, g1).
                  if shift_x \<noteq> 0 then
                    and_then (warp_affine_channel red_channel w h) (\<lambda>shifted_red.
                      if shifted_red = red_channel then Inr g1 else Inl ValueError)
                  else Inr g1))
           else Inr g)
          (\<lambda>g1.
        and_then
          (if intensity > 1 / 2 then glitch_slices (nat (py_int (intensity * 10))) s intensity g1
           else Inr g1)
          (\<lambda>g2.
        if intensity > 4 / 10 then
          and_then (split_bgr_shape s) (\<lambda>ch.
          and_then (warp_affine_channel ch w h) (\<lambda>g_shifted.
          and_then (warp_affine_channel ch w h) (\<lambda>b_shifted.
          and_then (merge3_shape b_shifted g_shifted ch) (\<lambda>merged. Inr (merged, g2)))))
        else Inr (s, g2))))"

text \<open>
  \<open>apply_data_corruption\<close>, the loop over the random blocks: a block of noise of
  \<open>block_size\<close> by \<open>block_size\<close> pixels and three channels, a shifted block of the
  frame, or the block itself with its channels shuffled is assigned to the block at
  \<open>(y, x)\<close>.
\<close>

fun corrupt_blocks :: "nat \<Rightarrow> shape \<Rightarrow> real \<Rightarrow> rng \<Rightarrow> py_error + rng" where
  "corrupt_blocks 0 s intensity g = Inr g"
| "corrupt_blocks (Suc n) s intensity g =
     (case s of (h, w, c) \<Rightarrow>
        let block_size = py_int (10 + intensity * 40) in
        and_then (randint 0 (max 1 (int w - block_size)) g) (\<lambda>(x, g1).
        and_then (randint 0 (max 1 (int h - block_size)) g1) (\<lambda>(y, g2).
          case next_random g2 of (corruption_type, g3) \<Rightarrow>
            let dst = crop_shape s y (y + block_size) x (x + block_size) in
            if corruption_type < 3 / 10 then
              and_then (assign_slice dst (nat block_size, nat block_size, 3))
                (\<lambda>u. corrupt_blocks n s intensity g3)
            else if corruption_type < 6 / 10 then
              and_then (randint (- block_size) block_size g3) (\<lambda>(shift_x, g4).
              and_then (randint (- block_size) block_size g4) (\<lambda>(shift_y, g5).
                let src_x = int_clip (x + shift_x) 0 (int w - block_size);
                    src_y = int_clip (y + shift_y) 0 (int h - block_size)
                in and_then
                     (assign_slice dst
                        (crop_shape s src_y (src_y + block_size) src_x (src_x + block_size)))
                     (\<lambda>u. corrupt_blocks n s intensity g5)))
            else
              and_then (split_bgr_shape dst) (\<lambda>ch.
              and_then (merge3_shape ch ch ch) (\<lambda>shuffled.
              and_then (assign_slice dst shuffled)
                (\<lambda>u. corrupt_blocks n s intensity g3))))))"

text \<open>The loop over the corrupted horizontal lines.\<close>

fun corrupt_lines :: "nat \<Rightarrow> shape \<Rightarrow> real \<Rightarrow> rng \<Rightarrow> py_error + rng" where
  "corrupt_lines 0 s intensity g = Inr g"
| "corrupt_lines (Suc n) s intensity g =
     (case s of (h, w, c) \<Rightarrow>
        and_then (randint 0 (int h) g) (\<lambda>(line_y, g1).
        let line_height = max 1 (py_int (intensity * 15)) in
        and_then (randint (int (w div 4)) (int w) g1) (\<lambda>(line_width, g2).
        and_then (randint 0 (max 1 (int w - line_width)) g2) (\<lambda>(line_x, g3).
        and_then (randint (- 50) 51 g3) (\<lambda>(shift, g4).
          let src_x = int_clip (line_x + shift) 0 (int w - line_width)
          in and_then
               (assign_slice
                  (crop_shape s line_y (line_y + line_height) line_x (line_x + line_width))
                  (crop_shape s line_y (line_y + line_height) src_x (src_x + line_width)))
               (\<lambda>u. corrupt_lines n s intensity g4))))))"

definition data_corruption_shape :: "shape \<Rightarrow> real \<Rightarrow> rng \<Rightarrow> py_error + shape \<times> rng" where
  "data_corruption_shape s intensity g =
     (if intensity \<le> 0 then Inr (s, g)
      else
        and_then
          (if intensity > 1 / 10
           then corrupt_blocks (nat (max 1 (py_int (intensity * 20)))) s intensity g
           else Inr g)
          (\<lambda>g1.
        and_then
          (if intensity > 4 / 10
           then corrupt_lines (nat (py_int (2 + intensity * 8))) s intensity g1
           else Inr g1)
          (\<lambda>g2. Inr (s, g2))))"

text \<open>
  \<open>apply_artifacts_effect\<close>. The block loop draws one random number per block and the
  line loop three per line, none of which can fail; both change pixel values in place.
  The noise of shape \<open>(h, w, 3)\<close> is added to the frame, and above 0.7 the frame is
  resized down and back up to \<open>(w, h)\<close>.
\<close>

definition artifacts_shape :: "shape \<Rightarrow> real \<Rightarrow> rng \<Rightarrow> py_error + shape \<times> rng" where
  "artifacts_shape s intensity g =
     (if intensity \<le> 0 then Inr (s, g)
      else case s of (h, w, c) \<Rightarrow>
        let g1 = (if intensity > 2 / 10
                  then let block_size = nat (py_int (4 + intensity * 12))
                       in drop (((h + block_size - 1) div block_size)
                                 * ((w + block_size - 1) div block_size)) g
                  else g)
        in
        and_then (if intensity > 15 / 100 then broadcast_shapes s (h, w, 3) else Inr s)
          (\<lambda>noisy.
        let g2 = (if intensity > 3 / 10 then drop (3 * nat (py_int (2 + intensity * 8))) g1
                  else g1);
            pixel_size = py_int (2 + (intensity - 7 / 10) * 2)
        in
        if intensity > 7 / 10 \<and> pixel_size > 1 then
          and_then (resize_shape noisy (max 1 (nat (int w div pixel_size)))
                      (max 1 (nat (int h div pixel_size)))) (\<lambda>small.
          and_then (resize_shape small w h) (\<lambda>pixelated. Inr (pixelated, g2)))
        else Inr (noisy, g2)))"

text \<open>\<open>apply_posterization\<close>: the channels 0, 1 and 2 of the copy are quantized in place.\<close>

definition posterization_shape :: "shape \<Rightarrow> real \<Rightarrow> py_error + shape" where
  "posterization_shape s intensity =
     (if intensity \<le> 0 then Inr s
      else and_then (channel_shape s 2) (\<lambda>channel. Inr s))"

text \<open>
  \<open>apply_edge_detection_overlay\<close>: the Canny edge map of the gray image, converted
  back to three channels, is blended with the frame by \<open>addWeighted\<close>.
\<close>

definition edge_detection_overlay_shape :: "shape \<Rightarrow> real \<Rightarrow> py_error + shape" where
  "edge_detection_overlay_shape s intensity =
     (if intensity \<le> 0 then Inr s
      else and_then (bgr2gray_shape s) (\<lambda>edges. add_weighted_shape s (gray2bgr_shape edges)))"

text \<open>
  \<open>apply_vhs_degradation\<close>: above 0.3 split, shift and merge; above 0.4 noise of shape
  \<open>(h, w, 3)\<close> is added; above 0.5 the frame goes to HSV and back.
\<close>

definition vhs_degradation_shape :: "shape \<Rightarrow> real \<Rightarrow> rng \<Rightarrow> py_error + shape \<times> rng" where
  "vhs_degradation_shape s intensity g =
     (if intensity \<le> 0 then Inr (s, g)
      else case s of (h, w, c) \<Rightarrow>
        and_then
          (if intensity > 3 / 10 then
             and_then (split_bgr_shape s) (\<lambda>ch.
             and_then (warp_affine_channel ch w h) (\<lambda>r_shifted.
             and_then (warp_affine_channel ch w h) (\<lambda>b_shifted.
               merge3_shape b_shifted ch r_shifted)))
           else Inr s)
          (\<lambda>v1.
        and_then (if intensity > 4 / 10 then broadcast_shapes v1 (h, w, 3) else Inr v1)
          (\<lambda>v2.
        and_then
          (if intensity > 5 / 10 then and_then (cvt_color_shape v2) cvt_color_shape
           else Inr v2)
          (\<lambda>v3. Inr (v3, g)))))"

text \<open>\<open>apply_scan_lines_crt\<close>: lines darkened in place; above 0.5 a remap with maps of shape \<open>(h, w)\<close>.\<close>

definition scan_lines_crt_shape :: "shape \<Rightarrow> real \<Rightarrow> py_error + shape" where
  "scan_lines_crt_shape s intensity =
     (if intensity \<le> 0 then Inr s
      else case s of (h, w, c) \<Rightarrow>
        if intensity > 5 / 10 then remap_shape s (h, w) else Inr s)"

text \<open>
  \<open>blend_layers\<close>: an opacity of at most 0 returns the base; every blend mode combines
  the two layers element by element.
\<close>

definition blend_layers_shape :: "shape \<Rightarrow> shape \<Rightarrow> string \<Rightarrow> real \<Rightarrow> py_error + shape" where
  "blend_layers_shape base overlay mode opacity =
     (if opacity \<le> 0 then Inr base else broadcast_shapes base overlay)"

text \<open>The pipeline on shapes: the primitives and the stages above.\<close>

definition shape_backend :: "(shape, rng) backend" where
  "shape_backend =
     \<lparr> frame_hw = (\<lambda>(h, w, c). (h, w)),
       frame_crop = crop_shape,
       cv_resize = resize_shape,
       cv_warp_rotation = (\<lambda>s center angle width height. warp_affine_shape s width height),
       cv_bgr2hsv = cvt_color_shape,
       hsv_shift_hue = (\<lambda>s hue. s),
       hsv_scale_saturation = (\<lambda>s m. s),
       hsv_scale_value = (\<lambda>s m. s),
       cv_hsv2bgr = cvt_color_shape,
       cv_gaussian_blur = gaussian_blur_shape,
       apply_pixel_sorting = pixel_sorting_shape,
       apply_kaleidoscope = kaleidoscope_shape,
       apply_wave_distortion = wave_distortion_shape,
       apply_glitch_effect = glitch_shape,
       apply_data_corruption = data_corruption_shape,
       apply_artifacts_effect = artifacts_shape,
       apply_posterization = posterization_shape,
       apply_edge_detection_overlay = edge_detection_overlay_shape,
       apply_vhs_degradation = vhs_degradation_shape,
       apply_scan_lines_crt = scan_lines_crt_shape,
       blend_layers = blend_layers_shape \<rparr>"

section \<open>Properties\<close>

subsection \<open>Energy normalisation\<close>

lemma normalize_energy_nonempty:
  assumes "energy \<noteq> []"
  shows "normalize_energy energy =
           Inr (if Max (set energy) - Min (set energy) < eps8
                then replicate (length energy) 0
                else map (\<lambda>x. (x - Min (set energy)) / (Max (set energy) - Min (set energy))) energy)"
  using assms by (simp add: normalize_energy_def Let_def)

text \<open>
  Claim C3. For a non-empty raw energy array, \<open>normalize_energy\<close> returns an array of
  the same length whose values all lie in \<open>[0, 1]\<close>, and the result is all zeros exactly
  when \<open>max - min < 1e-8\<close>. Whenever it divides, the divisor is at least \<open>1e-8\<close>, so no
  division by zero occurs.
\<close>

theorem normalize_energy_range:
  assumes "energy \<noteq> []"
  shows "\<exists>ys. normalize_energy energy = Inr ys
            \<and> length ys = length energy
            \<and> (\<forall>y \<in> set ys. 0 \<le> y \<and> y \<le> 1)
            \<and> ((\<forall>y \<in> set ys. y = 0) \<longleftrightarrow> Max (set energy) - Min (set energy) < eps8)"
proof (cases "Max (set energy) - Min (set energy) < eps8")
  case True
  then show ?thesis
    using assms by (simp add: normalize_energy_nonempty)
next
  case False
  define lo where "lo = Min (set energy)"
  define hi where "hi = Max (set energy)"
  have pos: "0 < hi - lo"
    using False by (simp add: lo_def hi_def eps8_def)
  have bounds: "lo \<le> x \<and> x \<le> hi" if "x \<in> set energy" for x
    using that by (simp add: lo_def hi_def)
  have in_range: "0 \<le> (x - lo) / (hi - lo) \<and> (x - lo) / (hi - lo) \<le> 1" if "x \<in> set energy" for x
    using bounds [OF that] pos by (simp add: divide_le_eq)
  have "hi \<in> set energy"
    using assms by (simp add: hi_def)
  moreover have "(hi - lo) / (hi - lo) \<noteq> 0"
    using pos by simp
  ultimately have not_all_zero: "\<not> (\<forall>x \<in> set energy. (x - lo) / (hi - lo) = 0)"
    by blast
  show ?thesis
    using assms False in_range not_all_zero
    by (simp add: normalize_energy_nonempty lo_def hi_def)
qed

theorem normalize_energy_range_witness:
  "[1, 3, 2 :: real] \<noteq> []
   \<and> (\<exists>ys. normalize_energy [1, 3, 2] = Inr ys
            \<and> length ys = length [1, 3, 2 :: real]
            \<and> (\<forall>y \<in> set ys. 0 \<le> y \<and> y \<le> 1)
            \<and> ((\<forall>y \<in> set ys. y = 0) \<longleftrightarrow> Max (set [1, 3, 2 :: real]) - Min (set [1, 3, 2]) < eps8))"
  using normalize_energy_range [of "[1, 3, 2]"] by simp

subsection \<open>The image-to-video frame count\<close>




subsection \<open>Zoom and rotation\<close>

lemma bass_intensity_ok:
  assumes "sub_bass_zoom + bass_zoom + eps8 \<noteq> 0"
  shows "bass_intensity sub_bass_val bass_val sub_bass_zoom bass_zoom =
           Inr (np_clip ((sub_bass_val * sub_bass_zoom + bass_val * bass_zoom)
                          / (sub_bass_zoom + bass_zoom + eps8)) 0 1)"
  using assms by (simp add: bass_intensity_def np_div_def)

lemma np_clip_unit: "0 \<le> np_clip x 0 1 \<and> np_clip x 0 1 \<le> 1"
  by (simp add: np_clip_def)

lemma np_clip_id: "lo \<le> x \<Longrightarrow> x \<le> hi \<Longrightarrow> np_clip x lo hi = x"
  by (simp add: np_clip_def)

lemma blend_antitone:
  fixes x :: real
  assumes "s1 \<le> s2" and "x \<le> 1"
  shows "(1 - s2) + s2 * x \<le> (1 - s1) + s1 * x"
proof -
  have "((1 - s1) + s1 * x) - ((1 - s2) + s2 * x) = (s2 - s1) * (1 - x)"
    by (simp add: algebra_simps)
  moreover have "0 \<le> (s2 - s1) * (1 - x)"
    using assms by simp
  ultimately show ?thesis by linarith
qed

lemma nearest_beat_distance_nonneg:
  assumes "bass_beat_times \<noteq> []"
  shows "0 \<le> nearest_beat_distance bass_beat_times t"
  using assms by (simp add: nearest_beat_distance_def)

lemma zoom_intensity_beat_ok:
  assumes "beat_window \<noteq> 0" and "sub_bass_zoom + bass_zoom + eps8 \<noteq> 0"
  shows "zoom_intensity_beat d beat_window sb b sub_bass_zoom bass_zoom s =
           Inr ((1 - s) + s * (np_clip (1 - d / beat_window) 0 1 * (7 / 10)
                  + np_clip ((sb * sub_bass_zoom + b * bass_zoom)
                              / (sub_bass_zoom + bass_zoom + eps8)) 0 1 * (3 / 10)))"
  using assms by (simp add: zoom_intensity_beat_def np_div_def bass_intensity_ok Let_def)

lemma unit_mix:
  fixes p q :: real
  assumes "p \<le> 1" and "q \<le> 1"
  shows "p * (7 / 10) + q * (3 / 10) \<le> 1"
  using assms by simp

lemma weighted_mean_unit:
  fixes sb b w1 w2 :: real
  assumes "0 \<le> sb" "sb \<le> 1" "0 \<le> b" "b \<le> 1" "0 \<le> w1" "0 \<le> w2"
  shows "0 \<le> (sb * w1 + b * w2) / (w1 + w2 + eps8) \<and> (sb * w1 + b * w2) / (w1 + w2 + eps8) \<le> 1"
proof -
  have pos: "0 < w1 + w2 + eps8"
    using assms by (simp add: eps8_def add_nonneg_pos)
  have "sb * w1 \<le> w1" "b * w2 \<le> w2"
    using assms by (simp_all add: mult_left_le_one_le mult.commute)
  then have "sb * w1 + b * w2 \<le> w1 + w2 + eps8"
    by (simp add: eps8_def)
  moreover have "0 \<le> sb * w1 + b * w2"
    using assms by simp
  ultimately show ?thesis
    using pos by (simp add: divide_le_eq)
qed

text \<open>
  Claim C1, as stated, fails: the code divides by \<open>sub_bass_zoom + bass_zoom + 1e-8\<close>, not
  by the sum of the weights, and clips the quotient to \<open>[0, 1]\<close>. With the weights
  \<open>1e-8\<close> and \<open>0\<close>, full band energy, a beat at the frame's own time, sensitivity 1 and
  zoom factor 2 the code computes the zoom 1.85, the formula of the claim 2.
\<close>

theorem beat_zoom_formula_counterexample:
  "compute_zoom True [0] 0 (1 / 5) 1 1 (1 / 100000000) 0 1 2 = Inr (37 / 20)
   \<and> 1 + (2 - 1) * ((1 - 1) + 1 * (7 / 10 * (1 - \<bar>0 - 0\<bar> / (1 / 5))
         + 3 / 10 * ((1 * (1 / 100000000) + 1 * 0) / (1 / 100000000 + 0)))) = (2 :: real)"
  by (simp add: compute_zoom_def nearest_beat_distance_def zoom_intensity_beat_def
      bass_intensity_def np_div_def np_clip_def eps8_def)

text \<open>
  Claim C1, amended. With beat-triggered zoom enabled, at least one beat, a beat window
  other than zero and \<open>w_subbass + w_bass + 1e-8\<close> other than zero: within the window the
  zoom is \<open>1 + (zoomFactor - 1) * ((1 - sensitivity) + sensitivity * (0.7 * (1 - d / beatWindow)
  + 0.3 * clip((subBass * w_subbass + bass * w_bass) / (w_subbass + w_bass + 1e-8), 0, 1)))\<close>,
  outside it the zoom is exactly 1. The clip changes nothing when the band values are in
  \<open>[0, 1]\<close> and the weights are not negative.
\<close>

theorem beat_triggered_zoom_formula:
  assumes "bass_beat_times \<noteq> []" and "beat_window \<noteq> 0"
    and "sub_bass_zoom + bass_zoom + eps8 \<noteq> 0"
  shows "(nearest_beat_distance bass_beat_times t \<le> beat_window \<longrightarrow>
            compute_zoom True bass_beat_times t beat_window sb b sub_bass_zoom bass_zoom s zf =
              Inr (1 + (zf - 1) * ((1 - s) + s *
                    (7 / 10 * (1 - nearest_beat_distance bass_beat_times t / beat_window)
                     + 3 / 10 * np_clip ((sb * sub_bass_zoom + b * bass_zoom)
                                          / (sub_bass_zoom + bass_zoom + eps8)) 0 1))))
         \<and> (beat_window < nearest_beat_distance bass_beat_times t \<longrightarrow>
            compute_zoom True bass_beat_times t beat_window sb b sub_bass_zoom bass_zoom s zf = Inr 1)
         \<and> (0 \<le> sb \<and> sb \<le> 1 \<and> 0 \<le> b \<and> b \<le> 1 \<and> 0 \<le> sub_bass_zoom \<and> 0 \<le> bass_zoom \<longrightarrow>
            np_clip ((sb * sub_bass_zoom + b * bass_zoom) / (sub_bass_zoom + bass_zoom + eps8)) 0 1
              = (sb * sub_bass_zoom + b * bass_zoom) / (sub_bass_zoom + bass_zoom + eps8))"
proof (intro conjI impI)
  define d where "d = nearest_beat_distance bass_beat_times t"
  assume within: "nearest_beat_distance bass_beat_times t \<le> beat_window"
  have d0: "0 \<le> d"
    using assms(1) by (simp add: d_def nearest_beat_distance_nonneg)
  have bw: "0 < beat_window"
    using within d0 assms(2) by (simp add: d_def)
  have "0 \<le> 1 - d / beat_window" "1 - d / beat_window \<le> 1"
    using within d0 bw by (simp_all add: d_def)
  then have prox: "np_clip (1 - d / beat_window) 0 1 = 1 - d / beat_window"
    by (rule np_clip_id)
  show "compute_zoom True bass_beat_times t beat_window sb b sub_bass_zoom bass_zoom s zf =
          Inr (1 + (zf - 1) * ((1 - s) + s *
                (7 / 10 * (1 - nearest_beat_distance bass_beat_times t / beat_window)
                 + 3 / 10 * np_clip ((sb * sub_bass_zoom + b * bass_zoom)
                                      / (sub_bass_zoom + bass_zoom + eps8)) 0 1)))"
    using assms within prox
    by (simp add: compute_zoom_def zoom_intensity_beat_ok Let_def d_def mult.commute)
next
  assume "beat_window < nearest_beat_distance bass_beat_times t"
  then show "compute_zoom True bass_beat_times t beat_window sb b sub_bass_zoom bass_zoom s zf = Inr 1"
    using assms(1) by (simp add: compute_zoom_def Let_def)
next
  assume "0 \<le> sb \<and> sb \<le> 1 \<and> 0 \<le> b \<and> b \<le> 1 \<and> 0 \<le> sub_bass_zoom \<and> 0 \<le> bass_zoom"
  then show "np_clip ((sb * sub_bass_zoom + b * bass_zoom) / (sub_bass_zoom + bass_zoom + eps8)) 0 1
              = (sb * sub_bass_zoom + b * bass_zoom) / (sub_bass_zoom + bass_zoom + eps8)"
    using weighted_mean_unit [of sb b sub_bass_zoom bass_zoom] by (simp add: np_clip_id)
qed

theorem beat_triggered_zoom_formula_witness:
  "[1 / 2 :: real] \<noteq> [] \<and> (1 / 5 :: real) \<noteq> 0 \<and> (1 / 5 :: real) + 1 + eps8 \<noteq> 0
   \<and> compute_zoom True [1 / 2] (2 / 5) (1 / 5) (1 / 2) (1 / 2) (1 / 5) 1 (7 / 10) (13 / 10) =
        Inr (1 + (13 / 10 - 1) * ((1 - 7 / 10) + 7 / 10 *
              (7 / 10 * (1 - (1 / 10) / (1 / 5))
               + 3 / 10 * ((1 / 2 * (1 / 5) + 1 / 2 * 1) / (1 / 5 + 1 + eps8)))))
   \<and> compute_zoom True [1 / 2] 0 (1 / 5) (1 / 2) (1 / 2) (1 / 5) 1 (7 / 10) (13 / 10) = Inr 1"
  using beat_triggered_zoom_formula [of "[1 / 2]" "1 / 5" "1 / 5" 1 "2 / 5" "1 / 2" "1 / 2" "7 / 10" "13 / 10"]
    beat_triggered_zoom_formula [of "[1 / 2]" "1 / 5" "1 / 5" 1 0 "1 / 2" "1 / 2" "7 / 10" "13 / 10"]
  by (simp add: nearest_beat_distance_def eps8_def)

lemma zoom_intensity_continuous_ok:
  assumes "sub_bass_zoom + bass_zoom + eps8 \<noteq> 0"
  shows "zoom_intensity_continuous sb b sub_bass_zoom bass_zoom s =
           Inr ((1 - s) + s * np_clip ((sb * sub_bass_zoom + b * bass_zoom)
                                        / (sub_bass_zoom + bass_zoom + eps8)) 0 1)"
  using assms by (simp add: zoom_intensity_continuous_def bass_intensity_ok)

lemma rotation_intensity_ok:
  assumes "treble_rotation + high_treble_rotation + eps8 \<noteq> 0"
  shows "rotation_intensity tr ht treble_rotation high_treble_rotation s =
           Inr ((1 - s) + s * np_clip ((tr * treble_rotation + ht * high_treble_rotation)
                                        / (treble_rotation + high_treble_rotation + eps8)) 0 1)"
  using assms by (simp add: rotation_intensity_def np_div_def)

text \<open>
  Claim C4, as stated, fails: the blend \<open>(1 - sensitivity) + sensitivity * raw\<close> with
  \<open>raw \<le> 1\<close> falls when the sensitivity rises. With all bands at 0.5 and the default weights,
  the rotation and zoom intensities are 1 at sensitivity 0 and below 1 at sensitivity 1.
\<close>

theorem sensitivity_monotone_counterexample:
  "rotation_intensity (1 / 2) (1 / 2) 1 (1 / 2) 0 = Inr 1
   \<and> rotation_intensity (1 / 2) (1 / 2) 1 (1 / 2) 1 = Inr (75000000 / 150000001)
   \<and> zoom_intensity_continuous (1 / 2) (1 / 2) (1 / 5) 1 0 = Inr 1
   \<and> zoom_intensity_continuous (1 / 2) (1 / 2) (1 / 5) 1 1 = Inr (60000000 / 120000001)
   \<and> (75000000 / 150000001 :: real) < 1 \<and> (60000000 / 120000001 :: real) < 1"
  by (simp add: rotation_intensity_def zoom_intensity_continuous_def bass_intensity_def
      np_div_def np_clip_def eps8_def)

text \<open>
  Claim C4, amended. For fixed band energies and weights (with non-zero denominators) and
  two sensitivities \<open>s1 < s2\<close>, the zoom intensity (continuous and beat-triggered) and the
  rotation intensity at \<open>s2\<close> are not larger than at \<open>s1\<close>: raising the sensitivity
  never increases them.
\<close>

theorem sensitivity_blend_antitone:
  assumes "s1 < s2"
    and "sub_bass_zoom + bass_zoom + eps8 \<noteq> 0"
    and "treble_rotation + high_treble_rotation + eps8 \<noteq> 0"
    and "beat_window \<noteq> 0"
  shows "\<exists>z1 z2 b1 b2 r1 r2.
           zoom_intensity_continuous sb b sub_bass_zoom bass_zoom s1 = Inr z1
         \<and> zoom_intensity_continuous sb b sub_bass_zoom bass_zoom s2 = Inr z2
         \<and> z2 \<le> z1
         \<and> zoom_intensity_beat d beat_window sb b sub_bass_zoom bass_zoom s1 = Inr b1
         \<and> zoom_intensity_beat d beat_window sb b sub_bass_zoom bass_zoom s2 = Inr b2
         \<and> b2 \<le> b1
         \<and> rotation_intensity tr ht treble_rotation high_treble_rotation s1 = Inr r1
         \<and> rotation_intensity tr ht treble_rotation high_treble_rotation s2 = Inr r2
         \<and> r2 \<le> r1"
proof -
  have le: "s1 \<le> s2" using assms(1) by simp
  define zraw where "zraw = np_clip ((sb * sub_bass_zoom + b * bass_zoom)
                                        / (sub_bass_zoom + bass_zoom + eps8)) 0 1"
  define braw where "braw = np_clip (1 - d / beat_window) 0 1 * (7 / 10) + zraw * (3 / 10)"
  define rraw where "rraw = np_clip ((tr * treble_rotation + ht * high_treble_rotation)
                                        / (treble_rotation + high_treble_rotation + eps8)) 0 1"
  have z1: "zraw \<le> 1" and r1: "rraw \<le> 1"
    by (simp_all add: zraw_def rraw_def np_clip_unit)
  have b1: "braw \<le> 1"
    unfolding braw_def using z1 np_clip_unit [of "1 - d / beat_window"] by simp
  have "(1 - s2) + s2 * zraw \<le> (1 - s1) + s1 * zraw"
    and "(1 - s2) + s2 * braw \<le> (1 - s1) + s1 * braw"
    and "(1 - s2) + s2 * rraw \<le> (1 - s1) + s1 * rraw"
    using le z1 b1 r1 by (simp_all only: blend_antitone)
  then show ?thesis
    using assms(2-4)
    by (simp add: zoom_intensity_continuous_ok zoom_intensity_beat_ok rotation_intensity_ok
        zraw_def braw_def rraw_def)
qed

theorem sensitivity_blend_antitone_witness:
  "(3 / 10 :: real) < 7 / 10 \<and> (1 / 5 :: real) + 1 + eps8 \<noteq> 0 \<and> (1 :: real) + 1 / 2 + eps8 \<noteq> 0
   \<and> (1 / 5 :: real) \<noteq> 0
   \<and> (\<exists>z1 z2 b1 b2 r1 r2.
           zoom_intensity_continuous (1 / 2) (1 / 4) (1 / 5) 1 (3 / 10) = Inr z1
         \<and> zoom_intensity_continuous (1 / 2) (1 / 4) (1 / 5) 1 (7 / 10) = Inr z2
         \<and> z2 \<le> z1
         \<and> zoom_intensity_beat (1 / 10) (1 / 5) (1 / 2) (1 / 4) (1 / 5) 1 (3 / 10) = Inr b1
         \<and> zoom_intensity_beat (1 / 10) (1 / 5) (1 / 2) (1 / 4) (1 / 5) 1 (7 / 10) = Inr b2
         \<and> b2 \<le> b1
         \<and> rotation_intensity (1 / 3) (2 / 3) 1 (1 / 2) (3 / 10) = Inr r1
         \<and> rotation_intensity (1 / 3) (2 / 3) 1 (1 / 2) (7 / 10) = Inr r2
         \<and> r2 \<le> r1)"
  using sensitivity_blend_antitone [of "3 / 10" "7 / 10" "1 / 5" 1 1 "1 / 2" "1 / 5"
      "1 / 2" "1 / 4" "1 / 10" "1 / 3" "2 / 3"]
  by (simp add: eps8_def)

subsection \<open>Temporal smoothing of a step\<close>











subsection \<open>Resampling round trip\<close>

lemma interp_scan_node:
  assumes "sorted_wrt (<) xp" and "length fp = length xp" and "i < length xp"
  shows "interp_scan (xp ! i) xp fp = fp ! i"
  using assms
proof (induction xp arbitrary: fp i)
  case Nil
  then show ?case by simp
next
  case (Cons x0 xs)
  obtain y0 ys where fp: "fp = y0 # ys"
    using Cons.prems(2) by (cases fp) auto
  show ?case
  proof (cases xs)
    case Nil
    then show ?thesis using Cons.prems fp by simp
  next
    case (Cons x1 xs')
    obtain y1 ys' where ys: "ys = y1 # ys'"
      using Cons.prems(2) fp Cons by (cases ys) auto
    show ?thesis
    proof (cases i)
      case 0
      then show ?thesis using Cons.prems fp Cons ys by simp
    next
      case (Suc i')
      have i': "i' < length xs"
        using Cons.prems(3) Suc by simp
      have st: "sorted_wrt (<) xs"
        using Cons.prems(1) by simp
      have "x1 \<le> xs ! i'"
        using st i' Cons by (cases i') (auto simp add: less_imp_le)
      then have nlt: "\<not> xs ! i' < x1"
        by simp
      have "interp_scan (xs ! i') xs ys = ys ! i'"
        using Cons.IH [OF st _ i', of ys] Cons.prems(2) fp by simp
      then show ?thesis
        using Suc nlt fp Cons ys by simp
    qed
  qed
qed

lemma strict_sorted_bounds:
  assumes "sorted_wrt (<) (xp :: real list)" and "i < length xp"
  shows "hd xp \<le> xp ! i \<and> xp ! i \<le> last xp"
proof -
  have ne: "xp \<noteq> []" using assms(2) by auto
  have sl: "sorted xp"
    using assms(1) by (rule strict_sorted_imp_sorted)
  have "xp ! 0 \<le> xp ! i"
    using sl assms(2) by (simp add: sorted_nth_mono)
  moreover have "xp ! i \<le> xp ! (length xp - 1)"
    using sl assms(2) by (intro sorted_nth_mono) simp_all
  ultimately show ?thesis
    using ne by (simp add: hd_conv_nth last_conv_nth)
qed

lemma interp_point_node:
  assumes "sorted_wrt (<) xp" and "length fp = length xp" and "i < length xp"
  shows "interp_point (xp ! i) xp fp = fp ! i"
  using strict_sorted_bounds [OF assms(1,3)] interp_scan_node [OF assms]
  by (simp add: interp_point_def)

text \<open>
  Claim C6, as stated, fails: resampling onto a coarser output grid loses the samples
  between the output frames. The curve \<open>0, 1, 0\<close> at the times \<open>0, 1, 2\<close>, resampled
  onto the two output frames \<open>linspace(0, 2, 2) = 0, 2\<close> and back, is \<open>0, 0, 0\<close>: the
  peak at time 1 is gone.
\<close>

theorem resample_roundtrip_counterexample:
  "resample_roundtrip 2 2 [0, 1, 2] [0, 1, 0] = Inr [0, 0, 0]"
  by (simp add: resample_roundtrip_def np_linspace_def np_interp_def interp_point_def upt_rec)

lemma np_linspace_strict:
  assumes "0 < duration" and "2 \<le> n_frames"
  defines "vft \<equiv> map (\<lambda>i. real i * (duration / real (nat n_frames - 1))) [0..<nat n_frames]"
  shows "np_linspace 0 duration n_frames = Inr vft" and "sorted_wrt (<) vft"
    and "length vft = nat n_frames"
proof -
  show "np_linspace 0 duration n_frames = Inr vft"
    using assms(2) by (simp add: np_linspace_def vft_def)
  have step: "0 < duration / real (nat n_frames - 1)"
    using assms(1,2) by simp
  show "length vft = nat n_frames"
    by (simp add: vft_def)
  have "vft ! a < vft ! b" if "a < b" "b < length vft" for a b
  proof -
    have "real a * (duration / real (nat n_frames - 1)) < real b * (duration / real (nat n_frames - 1))"
      using that(1) step by (intro mult_strict_right_mono) simp_all
    then show ?thesis
      using that by (simp add: vft_def)
  qed
  then show "sorted_wrt (<) vft"
    unfolding sorted_wrt_iff_nth_less by blast
qed

text \<open>
  Claim C6, amended. For strictly increasing spectrogram frame times, a curve of the
  same length, a positive duration and at least two output frames, the round trip
  returns a curve of the original length that reproduces the original value at every
  spectrogram frame time that is also an output frame time.
\<close>

theorem resample_roundtrip_at_shared_points:
  assumes "sorted_wrt (<) frame_times" and "length energy = length frame_times"
    and "0 < duration" and "2 \<le> n_frames"
    and "i < length frame_times" and "j < nat n_frames"
    and "frame_times ! i = real j * (duration / real (nat n_frames - 1))"
  shows "\<exists>restored. resample_roundtrip duration n_frames frame_times energy = Inr restored
           \<and> length restored = length frame_times
           \<and> restored ! i = energy ! i"
proof -
  define vft where "vft = map (\<lambda>i. real i * (duration / real (nat n_frames - 1))) [0..<nat n_frames]"
  define resampled where "resampled = map (\<lambda>x. interp_point x frame_times energy) vft"
  define restored where "restored = map (\<lambda>x. interp_point x vft resampled) frame_times"
  have lin: "np_linspace 0 duration n_frames = Inr vft" and sorted_vft: "sorted_wrt (<) vft"
    and len_vft: "length vft = nat n_frames"
    using np_linspace_strict [OF assms(3,4)] by (simp_all add: vft_def)
  have ne: "frame_times \<noteq> []" "vft \<noteq> []"
    using assms(5,6) len_vft by auto
  have shared: "vft ! j = frame_times ! i"
    using assms(6,7) by (simp add: vft_def)
  have fwd: "np_interp vft frame_times energy = Inr resampled"
    using ne assms(2) by (simp add: np_interp_def resampled_def)
  have bwd: "np_interp frame_times vft resampled = Inr restored"
    using ne by (simp add: np_interp_def resampled_def restored_def)
  have "resampled ! j = interp_point (frame_times ! i) frame_times energy"
    using assms(6) len_vft shared by (simp add: resampled_def)
  also have "\<dots> = energy ! i"
    using assms(1,2,5) by (rule interp_point_node)
  finally have at_j: "resampled ! j = energy ! i" .
  have "restored ! i = interp_point (vft ! j) vft resampled"
    using assms(5) shared by (simp add: restored_def)
  also have "\<dots> = resampled ! j"
    using sorted_vft by (rule interp_point_node) (simp_all add: resampled_def len_vft assms(6))
  finally have "restored ! i = energy ! i"
    using at_j by simp
  moreover have "length restored = length frame_times"
    by (simp add: restored_def)
  moreover have "resample_roundtrip duration n_frames frame_times energy = Inr restored"
    by (simp add: resample_roundtrip_def lin fwd bwd)
  ultimately show ?thesis by blast
qed

theorem resample_roundtrip_at_shared_points_witness:
  "sorted_wrt (<) [0, 1, 2 :: real] \<and> length [0, 1, 0 :: real] = length [0, 1, 2 :: real]
   \<and> (0 :: real) < 2 \<and> (2 :: int) \<le> 2 \<and> (2 :: nat) < length [0, 1, 2 :: real] \<and> (1 :: nat) < nat 2
   \<and> [0, 1, 2 :: real] ! 2 = real 1 * (2 / real (nat 2 - 1))
   \<and> (\<exists>restored. resample_roundtrip 2 2 [0, 1, 2] [0, 1, 0] = Inr restored
           \<and> length restored = length [0, 1, 2 :: real]
           \<and> restored ! 2 = [0, 1, 0 :: real] ! 2)"
  using resample_roundtrip_at_shared_points [of "[0, 1, 2]" "[0, 1, 0]" 2 2 2 1]
  by simp

subsection \<open>Peak detection\<close>




lemma suppress_earlier_length [simp]:
  "length (suppress_earlier peaks d j k keep) = length keep"
  by (induction k arbitrary: keep) simp_all


lemma suppress_earlier_untouched:
  "k \<le> m \<Longrightarrow> suppress_earlier peaks d j k keep ! m = keep ! m"
  by (induction k arbitrary: keep) simp_all


lemma suppress_later_step:
  "k < length peaks \<Longrightarrow> int (peaks ! k) - int (peaks ! j) < d
   \<Longrightarrow> suppress_later peaks d j k keep = suppress_later peaks d j (Suc k) (keep[k := False])"
  by (subst suppress_later.simps) simp

lemma suppress_later_stop:
  "\<not> (k < length peaks \<and> int (peaks ! k) - int (peaks ! j) < d)
   \<Longrightarrow> suppress_later peaks d j k keep = keep"
  by (subst suppress_later.simps) auto

lemma suppress_later_length [simp]:
  "length (suppress_later peaks d j k keep) = length keep"
proof (induction peaks d j k keep rule: suppress_later.induct)
  case (1 peaks d j k keep)
  show ?case
  proof (cases "k < length peaks \<and> int (peaks ! k) - int (peaks ! j) < d")
    case True
    then show ?thesis
      using "1.IH" by (simp add: suppress_later_step)
  next
    case False
    show ?thesis
      by (simp add: suppress_later_stop [OF False])
  qed
qed


lemma suppress_later_untouched:
  "m < k \<Longrightarrow> suppress_later peaks d j k keep ! m = keep ! m"
proof (induction peaks d j k keep rule: suppress_later.induct)
  case (1 peaks d j k keep)
  show ?case
  proof (cases "k < length peaks \<and> int (peaks ! k) - int (peaks ! j) < d")
    case True
    have "suppress_later peaks d j (Suc k) (keep[k := False]) ! m = keep[k := False] ! m"
      using "1.IH" [OF True] "1.prems" by simp
    then show ?thesis
      using True "1.prems" by (simp add: suppress_later_step)
  next
    case False
    show ?thesis
      by (simp add: suppress_later_stop [OF False])
  qed
qed


lemma process_peak_length [simp]:
  "length (process_peak peaks d keep j) = length keep"
  by (simp add: process_peak_def)


lemma process_peak_self:
  "keep ! j \<Longrightarrow> process_peak peaks d keep j ! j"
  by (simp add: process_peak_def suppress_later_untouched suppress_earlier_untouched)













subsection \<open>The effects pipeline\<close>

lemma and_then_Inr [simp]: "and_then (Inr a) f = f a"
  by (simp add: and_then_def)

lemma and_then_Inl [simp]: "and_then (Inl e) f = Inl e"
  by (simp add: and_then_def)

lemma zoom_frame_blend_irrelevant:
  "zoom_frame (bk\<lparr>blend_layers := other\<rparr>) frame z = zoom_frame bk frame z"
  by (simp add: zoom_frame_def)

lemma rotate_frame_blend_irrelevant:
  "rotate_frame (bk\<lparr>blend_layers := other\<rparr>) frame a = rotate_frame bk frame a"
  by (simp add: rotate_frame_def)

lemma apply_color_grade_blend_irrelevant:
  "apply_color_grade (bk\<lparr>blend_layers := other\<rparr>) frame h s v = apply_color_grade bk frame h s v"
  by (simp add: apply_color_grade_def Let_def cong: if_cong)

lemma apply_motion_blur_blend_irrelevant:
  "apply_motion_blur (bk\<lparr>blend_layers := other\<rparr>) = apply_motion_blur bk"
  by (intro ext) (simp add: apply_motion_blur_def Let_def cong: if_cong)

text \<open>
  Claim C7. With every argument at its neutral value (zoom 1, rotation 0, hue shift 0,
  saturation 1, brightness 1, every intensity 0) and the effect mode \<open>direct\<close>,
  \<open>apply_effects\<close> returns the input frame itself, without an error and without
  drawing a random number, whatever the image primitives and the effect stages compute.
\<close>

theorem apply_effects_neutral_identity:
  "apply_effects bk frame neutral_params ''direct'' blend_mode layer_opacity rng = Inr (frame, rng)"
  by (simp add: apply_effects_def neutral_params_def zoom_frame_def rotate_frame_def
      apply_color_grade_def random_stage_def plain_stage_def)

text \<open>
  Claim C10. In the effect mode \<open>direct\<close>, two calls of \<open>apply_effects\<close> on the same
  frame, with the same numeric arguments and the same state of the random generator,
  give the same result (frame, generator state or error) whatever the blend modes and
  layer opacities are, and whatever function stands for \<open>blend_layers\<close>: the result
  does not depend on \<open>blend_layers\<close>, which is not called.
\<close>

theorem apply_effects_direct_ignores_blend:
  "apply_effects bk frame p ''direct'' blend_mode1 layer_opacity1 rng =
     apply_effects (bk\<lparr>blend_layers := other\<rparr>) frame p ''direct'' blend_mode2 layer_opacity2 rng"
  by (simp add: apply_effects_def zoom_frame_blend_irrelevant rotate_frame_blend_irrelevant
      apply_color_grade_blend_irrelevant apply_motion_blur_blend_irrelevant)

subsection \<open>Shapes through the pipeline\<close>

lemma and_then_Inr_iff: "and_then r f = Inr y \<longleftrightarrow> (\<exists>a. r = Inr a \<and> f a = Inr y)"
  by (cases r) simp_all

lemma resize_shape_result:
  "resize_shape (h, w, c) width height = Inr out \<Longrightarrow> out = (height, width, c)"
  by (auto simp add: resize_shape_def split: if_splits)

lemma warp_affine_shape_result:
  "warp_affine_shape (h, w, c) width height = Inr out \<Longrightarrow> out = (height, width, c)"
  by (auto simp add: warp_affine_shape_def split: if_splits)

lemma warp_affine_channel_result:
  "warp_affine_channel (h, w) width height = Inr out \<Longrightarrow> out = (height, width)"
  by (auto simp add: warp_affine_channel_def split: if_splits)

lemma cvt_color_shape_result:
  "cvt_color_shape (h, w, c) = Inr out \<Longrightarrow> out = (h, w, 3)"
  by (auto simp add: cvt_color_shape_def split: if_splits)

lemma remap_shape_result:
  "remap_shape (h, w, c) (mh, mw) = Inr out \<Longrightarrow> out = (mh, mw, c)"
  by (auto simp add: remap_shape_def split: if_splits)

lemma add_weighted_shape_result:
  "add_weighted_shape a b = Inr out \<Longrightarrow> out = a"
  by (auto simp add: add_weighted_shape_def split: if_splits)

lemma broadcast_same:
  "broadcast_shapes s s = Inr s"
  by (cases s) (simp add: broadcast_shapes_def broadcast_axis_def)

lemma split_bgr_shape_result:
  "split_bgr_shape (h, w, c) = Inr out \<Longrightarrow> out = (h, w) \<and> c = 3"
  by (auto simp add: split_bgr_shape_def split: if_splits)

lemma merge3_shape_result:
  "merge3_shape a b c = Inr out \<Longrightarrow> out = (fst a, snd a, 3)"
  by (auto simp add: merge3_shape_def split: if_splits)

lemma gaussian_blur_shape_result:
  "gaussian_blur_shape s k = Inr out \<Longrightarrow> out = s"
  by (cases s) (auto simp add: gaussian_blur_shape_def split: if_splits)

lemma zoom_frame_shape:
  assumes "zoom_frame shape_backend (h, w, c) z = Inr out"
  shows "out = (h, w, c)"
  using assms
  by (auto simp add: zoom_frame_def shape_backend_def crop_shape_def Let_def
      split: if_splits dest: resize_shape_result)

lemma rotate_frame_shape:
  assumes "rotate_frame shape_backend (h, w, c) a = Inr out"
  shows "out = (h, w, c)"
  using assms
  by (auto simp add: rotate_frame_def shape_backend_def Let_def
      split: if_splits dest: warp_affine_shape_result)

lemma apply_color_grade_shape:
  assumes "apply_color_grade shape_backend (h, w, 3) hue sat bri = Inr out"
  shows "out = (h, w, 3)"
proof (cases "hue = 0 \<and> sat = 1 \<and> bri = 1")
  case True
  then show ?thesis using assms by (simp add: apply_color_grade_def)
next
  case False
  then obtain hsv where hsv: "cvt_color_shape (h, w, 3) = Inr hsv"
    and to_bgr: "cvt_color_shape hsv = Inr out"
    using assms
    by (auto simp add: apply_color_grade_def shape_backend_def and_then_Inr_iff Let_def
        split: if_splits)
  have "hsv = (h, w, 3)"
    using hsv by (rule cvt_color_shape_result)
  then show ?thesis
    using to_bgr by (auto dest: cvt_color_shape_result)
qed

lemma apply_motion_blur_shape:
  assumes "apply_motion_blur shape_backend s i = Inr out"
  shows "out = s"
  using assms
  by (auto simp add: apply_motion_blur_def shape_backend_def Let_def
      split: if_splits dest: gaussian_blur_shape_result)

lemma pixel_sorting_shape_result:
  assumes "pixel_sorting_shape s i g = Inr (out, g')"
  shows "out = s"
  using assms
  by (auto simp add: pixel_sorting_shape_def and_then_Inr_iff split: if_splits)

lemma kaleidoscope_shape_result:
  assumes "kaleidoscope_shape s i = Inr out"
  shows "out = s"
  using assms
  by (cases s)
     (auto simp add: kaleidoscope_shape_def and_then_Inr_iff
       split: if_splits dest: add_weighted_shape_result)

lemma wave_distortion_shape_result:
  assumes "wave_distortion_shape s i g = Inr (out, g')"
  shows "out = s"
  using assms
  by (cases s)
     (auto simp add: wave_distortion_shape_def and_then_Inr_iff
       split: if_splits dest: remap_shape_result)

lemma glitch_shape_result:
  assumes "glitch_shape (h, w, c) i g = Inr (out, g')"
  shows "out = (h, w, c)"
proof (cases "i \<le> 0")
  case True
  then show ?thesis using assms by (simp add: glitch_shape_def)
next
  case pos: False
  show ?thesis
  proof (cases "i > 4 / 10")
    case False
    then show ?thesis
      using assms pos by (auto simp add: glitch_shape_def and_then_Inr_iff)
  next
    case True
    then obtain ch gs bs where ch: "split_bgr_shape (h, w, c) = Inr ch"
      and gs: "warp_affine_channel ch w h = Inr gs"
      and bs: "warp_affine_channel ch w h = Inr bs"
      and m: "merge3_shape bs gs ch = Inr out"
      using assms pos by (auto simp add: glitch_shape_def and_then_Inr_iff)
    have "ch = (h, w) \<and> c = 3"
      using ch by (rule split_bgr_shape_result)
    moreover from this have "bs = (h, w)"
      using bs by (auto dest: warp_affine_channel_result)
    ultimately show ?thesis
      using merge3_shape_result [OF m] by simp
  qed
qed

lemma data_corruption_shape_result:
  assumes "data_corruption_shape s i g = Inr (out, g')"
  shows "out = s"
  using assms
  by (auto simp add: data_corruption_shape_def and_then_Inr_iff split: if_splits)

lemma posterization_shape_result:
  assumes "posterization_shape s i = Inr out"
  shows "out = s"
  using assms
  by (auto simp add: posterization_shape_def and_then_Inr_iff split: if_splits)

lemma edge_detection_overlay_shape_result:
  assumes "edge_detection_overlay_shape s i = Inr out"
  shows "out = s"
  using assms
  by (auto simp add: edge_detection_overlay_shape_def and_then_Inr_iff
      split: if_splits dest: add_weighted_shape_result)

lemma scan_lines_crt_shape_result:
  assumes "scan_lines_crt_shape s i = Inr out"
  shows "out = s"
  using assms
  by (cases s)
     (auto simp add: scan_lines_crt_shape_def split: if_splits dest: remap_shape_result)

lemma artifacts_shape_result:
  assumes "artifacts_shape (h, w, 3) i g = Inr (out, g')"
  shows "out = (h, w, 3)"
proof (cases "i \<le> 0")
  case True
  then show ?thesis using assms by (simp add: artifacts_shape_def)
next
  case pos: False
  define pixel_size where "pixel_size = py_int (2 + (i - 7 / 10) * 2)"
  have noisy: "(if i > 15 / 100 then broadcast_shapes (h, w, 3) (h, w, 3) else Inr (h, w, 3))
                 = Inr (h, w, 3)"
    by (simp add: broadcast_same)
  show ?thesis
  proof (cases "i > 7 / 10 \<and> pixel_size > 1")
    case False
    then show ?thesis
      using assms pos noisy
      by (auto simp add: artifacts_shape_def Let_def pixel_size_def)
  next
    case True
    then obtain small where
      small: "resize_shape (h, w, 3) (max 1 (nat (int w div pixel_size)))
                (max 1 (nat (int h div pixel_size))) = Inr small"
      and up: "resize_shape small w h = Inr out"
      using assms pos noisy
      by (auto simp add: artifacts_shape_def Let_def pixel_size_def and_then_Inr_iff)
    have "small = (max 1 (nat (int h div pixel_size)), max 1 (nat (int w div pixel_size)), 3)"
      using small by (rule resize_shape_result)
    then show ?thesis
      using up by (auto dest: resize_shape_result)
  qed
qed

lemma vhs_degradation_shape_result:
  assumes "vhs_degradation_shape (h, w, 3) i g = Inr (out, g')"
  shows "out = (h, w, 3)"
proof (cases "i \<le> 0")
  case True
  then show ?thesis using assms by (simp add: vhs_degradation_shape_def)
next
  case pos: False
  obtain v1 v2 where
    v1: "(if i > 3 / 10 then
            and_then (split_bgr_shape (h, w, 3)) (\<lambda>ch.
            and_then (warp_affine_channel ch w h) (\<lambda>r_shifted.
            and_then (warp_affine_channel ch w h) (\<lambda>b_shifted.
              merge3_shape b_shifted ch r_shifted)))
          else Inr (h, w, 3)) = Inr v1"
    and v2: "(if i > 4 / 10 then broadcast_shapes v1 (h, w, 3) else Inr v1) = Inr v2"
    and v3: "(if i > 5 / 10 then and_then (cvt_color_shape v2) cvt_color_shape else Inr v2)
               = Inr out"
    using assms pos by (auto simp add: vhs_degradation_shape_def and_then_Inr_iff)
  have e1: "v1 = (h, w, 3)"
  proof (cases "i > 3 / 10")
    case False
    then show ?thesis using v1 by simp
  next
    case True
    then obtain ch b_shifted r_shifted where "split_bgr_shape (h, w, 3) = Inr ch"
      and "warp_affine_channel ch w h = Inr b_shifted"
      and "merge3_shape b_shifted ch r_shifted = Inr v1"
      using v1 by (auto simp add: and_then_Inr_iff)
    then show ?thesis
      by (auto dest!: split_bgr_shape_result warp_affine_channel_result merge3_shape_result)
  qed
  have e2: "v2 = (h, w, 3)"
    using v2 e1 by (simp add: broadcast_same split: if_splits)
  show ?thesis
  proof (cases "i > 5 / 10")
    case False
    then show ?thesis using v3 e2 by simp
  next
    case True
    then obtain hsv where "cvt_color_shape v2 = Inr hsv" and "cvt_color_shape hsv = Inr out"
      using v3 by (auto simp add: and_then_Inr_iff)
    then show ?thesis
      using e2 by (auto dest!: cvt_color_shape_result)
  qed
qed

lemma blend_layers_shape_result:
  assumes "blend_layers_shape s s mode opacity = Inr out"
  shows "out = s"
  using assms by (simp add: blend_layers_shape_def broadcast_same split: if_splits)

lemma random_stage_shape:
  assumes "\<And>g out g'. stage s i g = Inr (out, g') \<Longrightarrow> out = s"
    and "random_stage i stage (s, g) = Inr (out, g')"
  shows "out = s"
  using assms by (auto simp add: random_stage_def split: if_splits)

lemma plain_stage_shape:
  assumes "\<And>out. stage s i = Inr out \<Longrightarrow> out = s"
    and "plain_stage i stage (s, g) = Inr (out, g')"
  shows "out = s"
  using assms by (auto simp add: plain_stage_def and_then_Inr_iff split: if_splits)

lemma shape_backend_fields:
  "apply_pixel_sorting shape_backend = pixel_sorting_shape"
  "apply_kaleidoscope shape_backend = kaleidoscope_shape"
  "apply_wave_distortion shape_backend = wave_distortion_shape"
  "apply_glitch_effect shape_backend = glitch_shape"
  "apply_data_corruption shape_backend = data_corruption_shape"
  "apply_artifacts_effect shape_backend = artifacts_shape"
  "apply_posterization shape_backend = posterization_shape"
  "apply_edge_detection_overlay shape_backend = edge_detection_overlay_shape"
  "apply_vhs_degradation shape_backend = vhs_degradation_shape"
  "apply_scan_lines_crt shape_backend = scan_lines_crt_shape"
  "blend_layers shape_backend = blend_layers_shape"
  by (simp_all add: shape_backend_def)

lemma apply_effects_shape:
  assumes "apply_effects shape_backend (h, w, 3) p effect_mode blend_mode layer_opacity g
             = Inr (out, g')"
  shows "out = (h, w, 3)"
proof -
  define s where "s = (h, w, 3 :: nat)"
  obtain ot f1 f2 f3 s1 s2 s3 s4 s5 s6 s7 s8 s9 s10 s11 where
    ot: "(if effect_mode = ''layer''
          then and_then (zoom_frame shape_backend s (zoom p)) (\<lambda>z.
               and_then (rotate_frame shape_backend z (rotation p)) (\<lambda>r. Inr (Some r)))
          else Inr None) = Inr ot"
    and f1: "zoom_frame shape_backend s (zoom p) = Inr f1"
    and f2: "rotate_frame shape_backend f1 (rotation p) = Inr f2"
    and f3: "apply_color_grade shape_backend f2 (hue_shift p) (saturation p) (brightness p) = Inr f3"
    and s1: "random_stage (pixel_sort_intensity p) pixel_sorting_shape (f3, g) = Inr s1"
    and s2: "plain_stage (kaleidoscope_intensity p) kaleidoscope_shape s1 = Inr s2"
    and s3: "random_stage (wave_distortion_intensity p) wave_distortion_shape s2 = Inr s3"
    and s4: "random_stage (glitch_intensity p) glitch_shape s3 = Inr s4"
    and s5: "random_stage (data_corruption_intensity p) data_corruption_shape s4 = Inr s5"
    and s6: "random_stage (artifacts_intensity p) artifacts_shape s5 = Inr s6"
    and s7: "plain_stage (posterization_intensity p) posterization_shape s6 = Inr s7"
    and s8: "plain_stage (edge_detection_intensity p) edge_detection_overlay_shape s7 = Inr s8"
    and s9: "random_stage (vhs_intensity p) vhs_degradation_shape s8 = Inr s9"
    and s10: "plain_stage (scan_lines_intensity p) scan_lines_crt_shape s9 = Inr s10"
    and s11: "plain_stage (blur_intensity p) (apply_motion_blur shape_backend) s10 = Inr s11"
    and fin: "(case ot of
                 Some base \<Rightarrow>
                   and_then (blend_layers_shape base (fst s11) blend_mode layer_opacity)
                     (\<lambda>blended. Inr (blended, snd s11))
               | None \<Rightarrow> Inr s11) = Inr (out, g')"
    using assms unfolding apply_effects_def shape_backend_fields and_then_Inr_iff s_def
    by blast
  have e1: "f1 = s"
    using f1 unfolding s_def by (rule zoom_frame_shape)
  have e2: "f2 = s"
    using f2 unfolding e1 s_def by (rule rotate_frame_shape)
  have e3: "f3 = s"
    using f3 unfolding e2 s_def by (rule apply_color_grade_shape)
  have t1: "fst s1 = s"
    using s1 unfolding e3
    by (cases s1) (auto elim!: random_stage_shape [rotated] dest: pixel_sorting_shape_result)
  have t2: "fst s2 = s"
    using s2 t1
    by (cases s1; cases s2) (auto elim!: plain_stage_shape [rotated] dest: kaleidoscope_shape_result)
  have t3: "fst s3 = s"
    using s3 t2
    by (cases s2; cases s3) (auto elim!: random_stage_shape [rotated] dest: wave_distortion_shape_result)
  have t4: "fst s4 = s"
    using s4 t3 unfolding s_def
    by (cases s3; cases s4) (auto elim!: random_stage_shape [rotated] dest: glitch_shape_result)
  have t5: "fst s5 = s"
    using s5 t4
    by (cases s4; cases s5) (auto elim!: random_stage_shape [rotated] dest: data_corruption_shape_result)
  have t6: "fst s6 = s"
    using s6 t5 unfolding s_def
    by (cases s5; cases s6) (auto elim!: random_stage_shape [rotated] dest: artifacts_shape_result)
  have t7: "fst s7 = s"
    using s7 t6
    by (cases s6; cases s7) (auto elim!: plain_stage_shape [rotated] dest: posterization_shape_result)
  have t8: "fst s8 = s"
    using s8 t7
    by (cases s7; cases s8)
       (auto elim!: plain_stage_shape [rotated] dest: edge_detection_overlay_shape_result)
  have t9: "fst s9 = s"
    using s9 t8 unfolding s_def
    by (cases s8; cases s9) (auto elim!: random_stage_shape [rotated] dest: vhs_degradation_shape_result)
  have t10: "fst s10 = s"
    using s10 t9
    by (cases s9; cases s10) (auto elim!: plain_stage_shape [rotated] dest: scan_lines_crt_shape_result)
  have t11: "fst s11 = s"
    using s11 t10
    by (cases s10; cases s11) (auto elim!: plain_stage_shape [rotated] dest: apply_motion_blur_shape)
  show ?thesis
  proof (cases ot)
    case None
    then show ?thesis using fin t11 by (simp add: s_def)
  next
    case (Some base)
    then obtain z where "zoom_frame shape_backend s (zoom p) = Inr z"
      and "rotate_frame shape_backend z (rotation p) = Inr base"
      using ot by (auto simp add: and_then_Inr_iff split: if_splits)
    then have "base = s"
      using f1 e1 f2 e2 by simp
    then show ?thesis
      using fin Some t11
      by (auto simp add: and_then_Inr_iff s_def dest: blend_layers_shape_result)
  qed
qed

lemma next_random_unit:
  "next_random g = (u, g') \<Longrightarrow> 0 \<le> u \<and> u < 1"
  by (cases g) (auto simp add: next_random_def; linarith)+

lemma randint_total:
  assumes "low < high"
  shows "\<exists>v g'. randint low high g = Inr (v, g') \<and> low \<le> v \<and> v < high"
proof -
  obtain u rest where nr: "next_random g = (u, rest)"
    by (cases "next_random g")
  have u: "0 \<le> u" "u < 1"
    using next_random_unit [OF nr] by simp_all
  have pos: "0 < real_of_int (high - low)"
    using assms by simp
  have "0 \<le> u * real_of_int (high - low)"
    using u(1) pos by simp
  then have lo: "0 \<le> \<lfloor>u * real_of_int (high - low)\<rfloor>"
    by simp
  have "u * real_of_int (high - low) < real_of_int (high - low)"
    using u(2) pos by simp
  then have hi: "\<lfloor>u * real_of_int (high - low)\<rfloor> < high - low"
    by (simp add: floor_less_iff)
  have ne: "\<not> high \<le> low"
    using assms by simp
  have "randint low high g = Inr (low + \<lfloor>u * real_of_int (high - low)\<rfloor>, rest)"
    by (simp only: randint_def ne if_False nr prod.case)
  then show ?thesis
    using lo hi by simp
qed

lemma slice_len_inside:
  assumes "0 \<le> a" and "a \<le> b" and "b \<le> int n"
  shows "slice_len n a b = nat (b - a)"
  using assms by (simp add: slice_len_def slice_bound_def)

lemma assign_slice_same: "assign_slice s s = Inr ()"
  by (cases s) (simp add: assign_slice_def axis_fits_def)

lemma py_int_nonneg: "0 \<le> x \<Longrightarrow> py_int x = \<lfloor>x\<rfloor>"
  by (simp add: py_int_def)

lemma glitch_slices_total:
  assumes "1 \<le> h" and "1 \<le> w" and "1 / 2 < i"
  shows "\<exists>g'. glitch_slices n (h, w, c) i g = Inr g'"
proof (induction n arbitrary: g)
  case 0
  show ?case by simp
next
  case (Suc n)
  have sh_range: "1 < py_int (i * 20) + 1"
  proof -
    have "10 \<le> \<lfloor>i * 20\<rfloor>"
      using assms(3) by (simp add: le_floor_iff)
    then show ?thesis
      using assms(3) by (simp add: py_int_nonneg)
  qed
  obtain sy g1 where r1: "randint 0 (int h) g = Inr (sy, g1)"
    using randint_total [of 0 "int h" g] assms(1) by auto
  obtain sh g2 where r2: "randint 1 (py_int (i * 20) + 1) g1 = Inr (sh, g2)"
    using randint_total [OF sh_range, of g1] by auto
  have sx_range: "0 < max 1 (int w - 50)"
    by simp
  obtain sx g3 where r3: "randint 0 (max 1 (int w - 50)) g2 = Inr (sx, g3)"
    and sx: "0 \<le> sx" "sx < max 1 (int w - 50)"
    using randint_total [OF sx_range, of g2] by auto
  obtain sw g4 where r4: "randint 10 50 g3 = Inr (sw, g4)" and sw: "10 \<le> sw" "sw < 50"
    using randint_total [of 10 50 g3] by auto
  obtain u g5 where r5: "next_random g4 = (u, g5)"
    by (cases "next_random g4")
  obtain shift g6 where r6: "randint (- 20) 21 g5 = Inr (shift, g6)"
    using randint_total [of "- 20" 21 g5] by auto
  obtain e5 where ih5: "glitch_slices n (h, w, c) i g5 = Inr e5"
    using Suc.IH by blast
  obtain e6 where ih6: "glitch_slices n (h, w, c) i g6 = Inr e6"
    using Suc.IH by blast
  have fits: "assign_slice (crop_shape (h, w, c) sy (sy + sh) sx (sx + sw))
                (crop_shape (h, w, c) sy (sy + sh) (sx + shift) (sx + shift + sw)) = Inr ()"
    if guard: "0 \<le> sx + shift \<and> sx + shift < int w - sw"
  proof -
    have "sx + sw \<le> int w"
      using sx sw guard by (cases "int w - 50 \<le> 1") simp_all
    then have dst: "slice_len w sx (sx + sw) = nat sw"
      using sx(1) sw(1) slice_len_inside [of sx "sx + sw" w] by simp
    have src: "slice_len w (sx + shift) (sx + shift + sw) = nat sw"
      using guard sw(1) slice_len_inside [of "sx + shift" "sx + shift + sw" w] by simp
    show ?thesis
      by (simp add: crop_shape_def dst src assign_slice_same)
  qed
  show ?case
    using fits by (auto simp add: r1 r2 r3 r4 r5 r6 ih5 ih6)
qed

lemma block_size_bounds:
  assumes "0 < i" and "i \<le> 1"
  shows "10 \<le> py_int (10 + i * 40) \<and> py_int (10 + i * 40) \<le> 50"
proof -
  have "10 \<le> \<lfloor>10 + i * 40\<rfloor>"
    using assms(1) by (simp add: le_floor_iff)
  moreover have "\<lfloor>10 + i * 40\<rfloor> \<le> 50"
    using assms(2) by (simp add: floor_le_iff)
  ultimately show ?thesis
    using assms(1) by (simp add: py_int_nonneg)
qed

lemma int_clip_range: "lo \<le> hi \<Longrightarrow> lo \<le> int_clip x lo hi \<and> int_clip x lo hi \<le> hi"
  by (simp add: int_clip_def)

lemma corrupt_blocks_total:
  assumes "0 < i" and "i \<le> 1" and "50 \<le> h" and "50 \<le> w"
  shows "\<exists>g'. corrupt_blocks n (h, w, 3) i g = Inr g'"
proof (induction n arbitrary: g)
  case 0
  show ?case by simp
next
  case (Suc n)
  define bs where "bs = py_int (10 + i * 40)"
  have bs: "10 \<le> bs" "bs \<le> 50"
    using block_size_bounds [OF assms(1,2)] by (simp_all add: bs_def)
  have fit: "bs \<le> int h" "bs \<le> int w"
    using bs(2) assms(3,4) by simp_all
  have x_range: "0 < max 1 (int w - bs)" and y_range: "0 < max 1 (int h - bs)"
    and s_range: "- bs < bs"
    using bs(1) by simp_all
  obtain x g1 where r1: "randint 0 (max 1 (int w - bs)) g = Inr (x, g1)"
    and x: "0 \<le> x" "x < max 1 (int w - bs)"
    using randint_total [OF x_range, of g] by auto
  obtain y g2 where r2: "randint 0 (max 1 (int h - bs)) g1 = Inr (y, g2)"
    and y: "0 \<le> y" "y < max 1 (int h - bs)"
    using randint_total [OF y_range, of g1] by auto
  obtain ct g3 where r3: "next_random g2 = (ct, g3)"
    by (cases "next_random g2")
  obtain shift_x g4 where r4: "randint (- bs) bs g3 = Inr (shift_x, g4)"
    using randint_total [OF s_range, of g3] by auto
  obtain shift_y g5 where r5: "randint (- bs) bs g4 = Inr (shift_y, g5)"
    using randint_total [OF s_range, of g4] by auto
  obtain e3 where ih3: "corrupt_blocks n (h, w, 3) i g3 = Inr e3"
    using Suc.IH by blast
  obtain e5 where ih5: "corrupt_blocks n (h, w, 3) i g5 = Inr e5"
    using Suc.IH by blast
  have inside: "0 \<le> a \<Longrightarrow> a \<le> int m - bs \<Longrightarrow> slice_len m a (a + bs) = nat bs" for a m
    using bs(1) slice_len_inside [of a "a + bs" m] by simp
  have "x \<le> int w - bs" "y \<le> int h - bs"
    using x(2) y(2) fit by (simp_all add: max_def split: if_splits)
  then have dst: "crop_shape (h, w, 3) y (y + bs) x (x + bs) = (nat bs, nat bs, 3)"
    using x(1) y(1) by (simp add: crop_shape_def inside)
  define src_x where "src_x = int_clip (x + shift_x) 0 (int w - bs)"
  define src_y where "src_y = int_clip (y + shift_y) 0 (int h - bs)"
  have "0 \<le> src_x \<and> src_x \<le> int w - bs" "0 \<le> src_y \<and> src_y \<le> int h - bs"
    using fit int_clip_range [of 0 "int w - bs"] int_clip_range [of 0 "int h - bs"]
    by (simp_all add: src_x_def src_y_def)
  then have src: "crop_shape (h, w, 3) src_y (src_y + bs) src_x (src_x + bs) = (nat bs, nat bs, 3)"
    by (simp add: crop_shape_def inside)
  have shuffled: "split_bgr_shape (nat bs, nat bs, 3) = Inr (nat bs, nat bs)"
    "merge3_shape (nat bs, nat bs) (nat bs, nat bs) (nat bs, nat bs) = Inr (nat bs, nat bs, 3)"
    by (simp_all add: split_bgr_shape_def merge3_shape_def)
  show ?case
    using src
    by (simp add: bs_def [symmetric] src_x_def [symmetric] src_y_def [symmetric] Let_def
        r1 r2 r3 r4 r5 ih3 ih5 dst shuffled assign_slice_same)
qed

lemma corrupt_lines_total:
  assumes "1 \<le> h" and "1 \<le> w"
  shows "\<exists>g'. corrupt_lines n (h, w, c) i g = Inr g'"
proof (induction n arbitrary: g)
  case 0
  show ?case by simp
next
  case (Suc n)
  define lh where "lh = max 1 (py_int (i * 15))"
  have y_range: "0 < int h" and w_range: "int (w div 4) < int w"
    using assms by simp_all
  obtain line_y g1 where r1: "randint 0 (int h) g = Inr (line_y, g1)"
    using randint_total [OF y_range, of g] by auto
  obtain lw g2 where r2: "randint (int (w div 4)) (int w) g1 = Inr (lw, g2)"
    and lw: "int (w div 4) \<le> lw" "lw < int w"
    using randint_total [OF w_range, of g1] by auto
  have x_range: "0 < max 1 (int w - lw)"
    by simp
  obtain lx g3 where r3: "randint 0 (max 1 (int w - lw)) g2 = Inr (lx, g3)"
    and lx: "0 \<le> lx" "lx < max 1 (int w - lw)"
    using randint_total [OF x_range, of g2] by auto
  have s_range: "(- 50 :: int) < 51"
    by simp
  obtain shift g4 where r4: "randint (- 50) 51 g3 = Inr (shift, g4)"
    using randint_total [OF s_range, of g3] by auto
  obtain e4 where ih4: "corrupt_lines n (h, w, c) i g4 = Inr e4"
    using Suc.IH by blast
  define src_x where "src_x = int_clip (lx + shift) 0 (int w - lw)"
  have lw0: "0 \<le> lw"
    using lw(1) by linarith
  have "0 \<le> src_x \<and> src_x \<le> int w - lw"
    using lw(2) int_clip_range [of 0 "int w - lw" "lx + shift"] by (simp add: src_x_def)
  then have src: "slice_len w src_x (src_x + lw) = nat lw"
    using lw0 slice_len_inside [of src_x "src_x + lw" w] by simp
  have "lx + lw \<le> int w"
    using lx(2) lw(2) by simp
  then have dst: "slice_len w lx (lx + lw) = nat lw"
    using lx(1) lw0 slice_len_inside [of lx "lx + lw" w] by simp
  show ?case
    by (simp add: lh_def [symmetric] src_x_def [symmetric] Let_def r1 r2 r3 r4 ih4
        crop_shape_def src dst assign_slice_same)
qed

lemma shape_primitives_total:
  assumes "0 < h" and "0 < w"
  shows "warp_affine_shape (h, w, c) w h = Inr (h, w, c)"
    and "warp_affine_channel (h, w) w h = Inr (h, w)"
    and "cvt_color_shape (h, w, 3) = Inr (h, w, 3)"
    and "bgr2gray_shape (h, w, 3) = Inr (h, w)"
    and "remap_shape (h, w, c) (h, w) = Inr (h, w, c)"
    and "channel_shape (h, w, 3) 2 = Inr (h, w)"
    and "split_bgr_shape (h, w, 3) = Inr (h, w)"
    and "merge3_shape (h, w) (h, w) (h, w) = Inr (h, w, 3)"
    and "add_weighted_shape (h, w, c) (h, w, c) = Inr (h, w, c)"
    and "resize_shape (h, w, c) w h = Inr (h, w, c)"
  using assms
  by (simp_all add: warp_affine_shape_def warp_affine_channel_def cvt_color_shape_def
      bgr2gray_shape_def remap_shape_def channel_shape_def split_bgr_shape_def merge3_shape_def
      add_weighted_shape_def resize_shape_def)

lemma zoom_frame_total:
  assumes "0 < h" and "0 < w" and "z \<le> real h" and "z \<le> real w"
  shows "zoom_frame shape_backend (h, w, c) z = Inr (h, w, c)"
proof (cases "z \<le> 1")
  case True
  then show ?thesis by (simp add: zoom_frame_def)
next
  case False
  then have z: "1 < z" by simp
  have crop: "1 \<le> py_int (real n / z) \<and> py_int (real n / z) \<le> int n"
    if "z \<le> real n" "0 < n" for n
  proof -
    have "1 \<le> real n / z"
      using that z by (simp add: le_divide_eq)
    then have lo: "1 \<le> \<lfloor>real n / z\<rfloor>"
      by (simp add: le_floor_iff)
    have "real n / z \<le> real n"
      using z that by (simp add: divide_le_eq mult_le_cancel_left1)
    then have hi: "\<lfloor>real n / z\<rfloor> \<le> int n"
      by (simp add: floor_le_iff)
    have "0 \<le> real n / z"
      using z by simp
    then show ?thesis
      using lo hi by (simp add: py_int_nonneg)
  qed
  have len: "slice_len n ((int n - k) div 2) ((int n - k) div 2 + k) = nat k"
    if "1 \<le> k" "k \<le> int n" for n k
  proof -
    have "0 \<le> (int n - k) div 2" "(int n - k) div 2 + k \<le> int n"
      using that by simp_all
    then show ?thesis
      using that slice_len_inside [of "(int n - k) div 2" "(int n - k) div 2 + k" n] by simp
  qed
  define crop_h where "crop_h = py_int (real h / z)"
  define crop_w where "crop_w = py_int (real w / z)"
  have ch: "1 \<le> crop_h" "crop_h \<le> int h" and cw: "1 \<le> crop_w" "crop_w \<le> int w"
    using crop [OF assms(3,1)] crop [OF assms(4,2)] by (simp_all add: crop_h_def crop_w_def)
  have "resize_shape (nat crop_h, nat crop_w, c) w h = Inr (h, w, c)"
    using ch(1) cw(1) assms(1,2) by (simp add: resize_shape_def)
  then show ?thesis
    using False len [OF ch] len [OF cw]
    by (simp add: zoom_frame_def shape_backend_def crop_shape_def Let_def
        crop_h_def [symmetric] crop_w_def [symmetric])
qed

lemma rotate_frame_total:
  assumes "0 < h" and "0 < w"
  shows "rotate_frame shape_backend (h, w, c) a = Inr (h, w, c)"
  using assms
  by (simp add: rotate_frame_def shape_backend_def shape_primitives_total)

lemma shape_backend_color:
  "cv_bgr2hsv shape_backend = cvt_color_shape"
  "cv_hsv2bgr shape_backend = cvt_color_shape"
  "hsv_shift_hue shape_backend s x = s"
  "hsv_scale_saturation shape_backend s x = s"
  "hsv_scale_value shape_backend s x = s"
  by (simp_all add: shape_backend_def)

lemma apply_color_grade_total:
  assumes "0 < h" and "0 < w"
  shows "apply_color_grade shape_backend (h, w, 3) hue sat bri = Inr (h, w, 3)"
  using assms
  by (simp add: apply_color_grade_def shape_backend_color shape_primitives_total Let_def)

lemma apply_motion_blur_total:
  assumes "0 < h" and "0 < w"
  shows "apply_motion_blur shape_backend (h, w, c) i = Inr (h, w, c)"
proof -
  define k where "k = py_int (1 + i * 15)"
  define kernel_size where "kernel_size = (if k mod 2 = 0 then k + 1 else k)"
  have odd: "kernel_size mod 2 \<noteq> 0"
    by (simp add: kernel_size_def) presburger
  have "gaussian_blur_shape (h, w, c) kernel_size = Inr (h, w, c)" if "1 < kernel_size"
    using that odd assms by (simp add: gaussian_blur_shape_def)
  then show ?thesis
    by (simp add: apply_motion_blur_def shape_backend_def Let_def k_def [symmetric]
        kernel_size_def [symmetric])
qed

lemma pixel_sorting_total:
  assumes "0 < h" and "0 < w"
  shows "\<exists>g'. pixel_sorting_shape (h, w, 3) i g = Inr ((h, w, 3), g')"
  using assms by (simp add: pixel_sorting_shape_def shape_primitives_total)

lemma kaleidoscope_total:
  assumes "0 < h" and "0 < w"
  shows "kaleidoscope_shape (h, w, 3) i = Inr (h, w, 3)"
  using assms by (simp add: kaleidoscope_shape_def shape_primitives_total)

lemma wave_distortion_total:
  assumes "0 < h" and "0 < w"
  shows "\<exists>g'. wave_distortion_shape (h, w, 3) i g = Inr ((h, w, 3), g')"
  using assms by (simp add: wave_distortion_shape_def shape_primitives_total)

lemma posterization_total:
  assumes "0 < h" and "0 < w"
  shows "posterization_shape (h, w, 3) i = Inr (h, w, 3)"
  using assms by (simp add: posterization_shape_def shape_primitives_total)

lemma edge_detection_overlay_total:
  assumes "0 < h" and "0 < w"
  shows "edge_detection_overlay_shape (h, w, 3) i = Inr (h, w, 3)"
  using assms
  by (simp add: edge_detection_overlay_shape_def gray2bgr_shape_def shape_primitives_total)

lemma scan_lines_crt_total:
  assumes "0 < h" and "0 < w"
  shows "scan_lines_crt_shape (h, w, 3) i = Inr (h, w, 3)"
  using assms by (simp add: scan_lines_crt_shape_def shape_primitives_total)

lemma vhs_degradation_total:
  assumes "0 < h" and "0 < w"
  shows "\<exists>g'. vhs_degradation_shape (h, w, 3) i g = Inr ((h, w, 3), g')"
  using assms
  by (simp add: vhs_degradation_shape_def shape_primitives_total broadcast_same)

lemma blend_layers_total:
  "blend_layers_shape s s mode opacity = Inr s"
  by (simp add: blend_layers_shape_def broadcast_same)

lemma glitch_total:
  assumes "0 < h" and "0 < w"
  shows "\<exists>g'. glitch_shape (h, w, 3) i g = Inr ((h, w, 3), g')"
proof (cases "i \<le> 0")
  case True
  then show ?thesis by (simp add: glitch_shape_def)
next
  case False
  then have pos: "0 < i" by simp
  have "0 \<le> py_int (i * 20)"
    using pos by (simp add: py_int_nonneg)
  then have range: "- py_int (i * 20) < py_int (i * 20) + 1"
    by simp
  obtain shift_x g1 where r1: "randint (- py_int (i * 20)) (py_int (i * 20) + 1) g = Inr (shift_x, g1)"
    using randint_total [OF range, of g] by auto
  define ga where "ga = (if i > 3 / 10 then g1 else g)"
  have red:
    "(if i > 3 / 10 then
        and_then (channel_shape (h, w, 3) 2) (\<lambda>red_channel.
        and_then (randint (- py_int (i * 20)) (py_int (i * 20) + 1) g)
          (\<lambda>(shift_x, g1).
             if shift_x \<noteq> 0 then
               and_then (warp_affine_channel red_channel w h) (\<lambda>shifted_red.
                 if shifted_red = red_channel then Inr g1 else Inl ValueError)
             else Inr g1))
      else Inr g) = Inr ga"
    using assms
    by (cases "i > 3 / 10"; cases "shift_x = 0") (simp_all add: ga_def r1 shape_primitives_total)
  obtain gb where slices:
    "(if i > 1 / 2 then glitch_slices (nat (py_int (i * 10))) (h, w, 3) i ga else Inr ga) = Inr gb"
  proof (cases "i > 1 / 2")
    case True
    then obtain e where "glitch_slices (nat (py_int (i * 10))) (h, w, 3) i ga = Inr e"
      using glitch_slices_total [of h w i "nat (py_int (i * 10))" 3 ga] assms by auto
    then show ?thesis using True that by simp
  next
    case False
    then show ?thesis using that by simp
  qed
  have merged:
    "(if i > 4 / 10 then
        and_then (split_bgr_shape (h, w, 3)) (\<lambda>ch.
        and_then (warp_affine_channel ch w h) (\<lambda>g_shifted.
        and_then (warp_affine_channel ch w h) (\<lambda>b_shifted.
        and_then (merge3_shape b_shifted g_shifted ch) (\<lambda>merged. Inr (merged, gb)))))
      else Inr ((h, w, 3), gb)) = Inr ((h, w, 3), gb)"
    using assms by (cases "i > 4 / 10") (simp_all add: shape_primitives_total)
  have "glitch_shape (h, w, 3) i g = Inr ((h, w, 3), gb)"
    unfolding glitch_shape_def
    by (simp only: False if_False prod.case red slices and_then_Inr merged)
  then show ?thesis by blast
qed

lemma data_corruption_total:
  assumes "50 \<le> h" and "50 \<le> w" and "i \<le> 1"
  shows "\<exists>g'. data_corruption_shape (h, w, 3) i g = Inr ((h, w, 3), g')"
proof (cases "i \<le> 0")
  case True
  then show ?thesis by (simp add: data_corruption_shape_def)
next
  case False
  then have pos: "0 < i" by simp
  obtain ga where blocks:
    "(if i > 1 / 10 then corrupt_blocks (nat (max 1 (py_int (i * 20)))) (h, w, 3) i g
      else Inr g) = Inr ga"
    using corrupt_blocks_total [OF pos assms(3,1,2), of "nat (max 1 (py_int (i * 20)))" g]
    by (cases "i > 1 / 10") auto
  obtain gb where lines:
    "(if i > 4 / 10 then corrupt_lines (nat (py_int (2 + i * 8))) (h, w, 3) i ga
      else Inr ga) = Inr gb"
    using corrupt_lines_total [of h w "nat (py_int (2 + i * 8))" 3 i ga] assms(1,2)
    by (cases "i > 4 / 10") auto
  have "data_corruption_shape (h, w, 3) i g = Inr ((h, w, 3), gb)"
    unfolding data_corruption_shape_def
    by (simp only: False if_False blocks lines and_then_Inr)
  then show ?thesis by blast
qed

lemma artifacts_total:
  assumes "0 < h" and "0 < w"
  shows "\<exists>g'. artifacts_shape (h, w, 3) i g = Inr ((h, w, 3), g')"
proof (cases "i \<le> 0")
  case True
  then show ?thesis by (simp add: artifacts_shape_def)
next
  case False
  define pixel_size where "pixel_size = py_int (2 + (i - 7 / 10) * 2)"
  have down: "resize_shape (h, w, 3) (max 1 a) (max 1 b) = Inr (max 1 b, max 1 a, 3)" for a b
    using assms by (simp add: resize_shape_def)
  have up: "resize_shape (max 1 b, max 1 a, 3) w h = Inr (h, w, 3)" for a b
    using assms by (simp add: resize_shape_def)
  have noisy: "(if i > 15 / 100 then broadcast_shapes (h, w, 3) (h, w, 3) else Inr (h, w, 3))
                 = Inr (h, w, 3)"
    by (simp add: broadcast_same)
  have "\<exists>g'. (if i > 7 / 10 \<and> pixel_size > 1 then
          and_then (resize_shape (h, w, 3) (max 1 (nat (int w div pixel_size)))
                      (max 1 (nat (int h div pixel_size)))) (\<lambda>small.
          and_then (resize_shape small w h) (\<lambda>pixelated. Inr (pixelated, g2)))
        else Inr ((h, w, 3), g2)) = Inr ((h, w, 3), g')" for g2 :: rng
    by (simp only: down up and_then_Inr if_cancel) blast
  then show ?thesis
    unfolding artifacts_shape_def
    by (simp only: False if_False prod.case Let_def noisy and_then_Inr
        pixel_size_def [symmetric])
qed

lemma random_stage_total:
  assumes "\<And>g. \<exists>g'. stage s i g = Inr (s, g')"
  shows "\<exists>g'. random_stage i stage (s, g) = Inr (s, g')"
  using assms by (simp add: random_stage_def)

lemma plain_stage_total:
  assumes "stage s i = Inr s"
  shows "plain_stage i stage (s, g) = Inr (s, g)"
  using assms by (simp add: plain_stage_def)

lemma apply_effects_total:
  assumes "50 \<le> h" and "50 \<le> w" and "zoom p \<le> real h" and "zoom p \<le> real w"
    and "data_corruption_intensity p \<le> 1"
  shows "\<exists>g'. apply_effects shape_backend (h, w, 3) p effect_mode blend_mode layer_opacity g
           = Inr ((h, w, 3), g')"
proof -
  define s where "s = (h, w, 3 :: nat)"
  have hw: "0 < h" "0 < w"
    using assms(1,2) by simp_all
  have z: "zoom_frame shape_backend s (zoom p) = Inr s"
    unfolding s_def using hw assms(3,4) by (rule zoom_frame_total)
  have r: "rotate_frame shape_backend s (rotation p) = Inr s"
    unfolding s_def using hw by (rule rotate_frame_total)
  have c: "apply_color_grade shape_backend s (hue_shift p) (saturation p) (brightness p) = Inr s"
    unfolding s_def using hw by (rule apply_color_grade_total)
  obtain g1 where s1: "random_stage (pixel_sort_intensity p) pixel_sorting_shape (s, g) = Inr (s, g1)"
    using random_stage_total [of pixel_sorting_shape s] pixel_sorting_total [OF hw]
    unfolding s_def by blast
  have s2: "plain_stage (kaleidoscope_intensity p) kaleidoscope_shape (s, g1) = Inr (s, g1)"
    unfolding s_def by (intro plain_stage_total kaleidoscope_total hw)
  obtain g3 where s3: "random_stage (wave_distortion_intensity p) wave_distortion_shape (s, g1) = Inr (s, g3)"
    using random_stage_total [of wave_distortion_shape s] wave_distortion_total [OF hw]
    unfolding s_def by blast
  obtain g4 where s4: "random_stage (glitch_intensity p) glitch_shape (s, g3) = Inr (s, g4)"
    using random_stage_total [of glitch_shape s] glitch_total [OF hw]
    unfolding s_def by blast
  obtain g5 where s5: "random_stage (data_corruption_intensity p) data_corruption_shape (s, g4) = Inr (s, g5)"
    using random_stage_total [of data_corruption_shape s "data_corruption_intensity p"]
      data_corruption_total [OF assms(1,2,5)]
    unfolding s_def by blast
  obtain g6 where s6: "random_stage (artifacts_intensity p) artifacts_shape (s, g5) = Inr (s, g6)"
    using random_stage_total [of artifacts_shape s] artifacts_total [OF hw]
    unfolding s_def by blast
  have s7: "plain_stage (posterization_intensity p) posterization_shape (s, g6) = Inr (s, g6)"
    unfolding s_def by (intro plain_stage_total posterization_total hw)
  have s8: "plain_stage (edge_detection_intensity p) edge_detection_overlay_shape (s, g6) = Inr (s, g6)"
    unfolding s_def by (intro plain_stage_total edge_detection_overlay_total hw)
  obtain g9 where s9: "random_stage (vhs_intensity p) vhs_degradation_shape (s, g6) = Inr (s, g9)"
    using random_stage_total [of vhs_degradation_shape s] vhs_degradation_total [OF hw]
    unfolding s_def by blast
  have s10: "plain_stage (scan_lines_intensity p) scan_lines_crt_shape (s, g9) = Inr (s, g9)"
    unfolding s_def by (intro plain_stage_total scan_lines_crt_total hw)
  have s11: "plain_stage (blur_intensity p) (apply_motion_blur shape_backend) (s, g9) = Inr (s, g9)"
    unfolding s_def by (intro plain_stage_total apply_motion_blur_total hw)
  have b: "blend_layers_shape s s blend_mode layer_opacity = Inr s"
    by (rule blend_layers_total)
  have "apply_effects shape_backend s p effect_mode blend_mode layer_opacity g = Inr (s, g9)"
    unfolding apply_effects_def shape_backend_fields
    by (cases "effect_mode = ''layer''")
       (simp_all only: if_True if_False z r c s1 s2 s3 s4 s5 s6 s7 s8 s9 s10 s11 b
          and_then_Inr option.case fst_conv snd_conv simp_thms)
  then show ?thesis
    unfolding s_def by blast
qed

text \<open>
  Two inputs on which the source raises instead of returning a frame: a zoom factor
  that leaves an empty crop, and a corruption block larger than the frame.
\<close>

lemma zoom_frame_empty_crop_raises:
  "zoom_frame shape_backend (1, 1, 3) 2 = Inl CvError"
  by (simp add: zoom_frame_def shape_backend_def crop_shape_def slice_len_def slice_bound_def
      py_int_def resize_shape_def)

lemma data_corruption_small_frame_raises:
  "data_corruption_shape (20, 20, 3) (6 / 10) [] = Inl ValueError"
  by code_simp

text \<open>
  Claim C9. For a frame of any height and width with three channels and for all effect
  arguments, blend modes, opacities and random draws, a frame returned by
  \<open>apply_effects\<close>, and a frame returned by each of the functions it calls
  (\<open>zoom_frame\<close>, \<open>rotate_frame\<close>, \<open>apply_color_grade\<close>, the ten effect stages,
  \<open>apply_motion_blur\<close>, and \<open>blend_layers\<close> on two frames of that shape), has the
  height, width and channel count of the input. A frame is returned at least whenever
  the frame is 50 by 50 pixels or larger, the zoom factor does not exceed the height and
  the width, and the data corruption intensity is at most 1.
\<close>

theorem effects_preserve_shape:
  "(\<forall>out g'. apply_effects shape_backend (h, w, 3) p effect_mode blend_mode layer_opacity g
        = Inr (out, g') \<longrightarrow> out = (h, w, 3))
   \<and> (\<forall>out. zoom_frame shape_backend (h, w, 3) z = Inr out \<longrightarrow> out = (h, w, 3))
   \<and> (\<forall>out. rotate_frame shape_backend (h, w, 3) a = Inr out \<longrightarrow> out = (h, w, 3))
   \<and> (\<forall>out. apply_color_grade shape_backend (h, w, 3) hue sat bri = Inr out \<longrightarrow> out = (h, w, 3))
   \<and> (\<forall>out g'. pixel_sorting_shape (h, w, 3) i g = Inr (out, g') \<longrightarrow> out = (h, w, 3))
   \<and> (\<forall>out. kaleidoscope_shape (h, w, 3) i = Inr out \<longrightarrow> out = (h, w, 3))
   \<and> (\<forall>out g'. wave_distortion_shape (h, w, 3) i g = Inr (out, g') \<longrightarrow> out = (h, w, 3))
   \<and> (\<forall>out g'. glitch_shape (h, w, 3) i g = Inr (out, g') \<longrightarrow> out = (h, w, 3))
   \<and> (\<forall>out g'. data_corruption_shape (h, w, 3) i g = Inr (out, g') \<longrightarrow> out = (h, w, 3))
   \<and> (\<forall>out g'. artifacts_shape (h, w, 3) i g = Inr (out, g') \<longrightarrow> out = (h, w, 3))
   \<and> (\<forall>out. posterization_shape (h, w, 3) i = Inr out \<longrightarrow> out = (h, w, 3))
   \<and> (\<forall>out. edge_detection_overlay_shape (h, w, 3) i = Inr out \<longrightarrow> out = (h, w, 3))
   \<and> (\<forall>out g'. vhs_degradation_shape (h, w, 3) i g = Inr (out, g') \<longrightarrow> out = (h, w, 3))
   \<and> (\<forall>out. scan_lines_crt_shape (h, w, 3) i = Inr out \<longrightarrow> out = (h, w, 3))
   \<and> (\<forall>out. apply_motion_blur shape_backend (h, w, 3) i = Inr out \<longrightarrow> out = (h, w, 3))
   \<and> (\<forall>out. blend_layers_shape (h, w, 3) (h, w, 3) blend_mode layer_opacity = Inr out
          \<longrightarrow> out = (h, w, 3))
   \<and> (50 \<le> h \<and> 50 \<le> w \<and> zoom p \<le> real h \<and> zoom p \<le> real w
        \<and> data_corruption_intensity p \<le> 1
      \<longrightarrow> (\<exists>g'. apply_effects shape_backend (h, w, 3) p effect_mode blend_mode layer_opacity g
                   = Inr ((h, w, 3), g')))"
proof (intro conjI allI impI)
  fix out g'
  assume "apply_effects shape_backend (h, w, 3) p effect_mode blend_mode layer_opacity g
            = Inr (out, g')"
  then show "out = (h, w, 3)" by (rule apply_effects_shape)
next
  fix out assume "zoom_frame shape_backend (h, w, 3) z = Inr out"
  then show "out = (h, w, 3)" by (rule zoom_frame_shape)
next
  fix out assume "rotate_frame shape_backend (h, w, 3) a = Inr out"
  then show "out = (h, w, 3)" by (rule rotate_frame_shape)
next
  fix out assume "apply_color_grade shape_backend (h, w, 3) hue sat bri = Inr out"
  then show "out = (h, w, 3)" by (rule apply_color_grade_shape)
next
  fix out g' assume "pixel_sorting_shape (h, w, 3) i g = Inr (out, g')"
  then show "out = (h, w, 3)" by (rule pixel_sorting_shape_result)
next
  fix out assume "kaleidoscope_shape (h, w, 3) i = Inr out"
  then show "out = (h, w, 3)" by (rule kaleidoscope_shape_result)
next
  fix out g' assume "wave_distortion_shape (h, w, 3) i g = Inr (out, g')"
  then show "out = (h, w, 3)" by (rule wave_distortion_shape_result)
next
  fix out g' assume "glitch_shape (h, w, 3) i g = Inr (out, g')"
  then show "out = (h, w, 3)" by (rule glitch_shape_result)
next
  fix out g' assume "data_corruption_shape (h, w, 3) i g = Inr (out, g')"
  then show "out = (h, w, 3)" by (rule data_corruption_shape_result)
next
  fix out g' assume "artifacts_shape (h, w, 3) i g = Inr (out, g')"
  then show "out = (h, w, 3)" by (rule artifacts_shape_result)
next
  fix out assume "posterization_shape (h, w, 3) i = Inr out"
  then show "out = (h, w, 3)" by (rule posterization_shape_result)
next
  fix out assume "edge_detection_overlay_shape (h, w, 3) i = Inr out"
  then show "out = (h, w, 3)" by (rule edge_detection_overlay_shape_result)
next
  fix out g' assume "vhs_degradation_shape (h, w, 3) i g = Inr (out, g')"
  then show "out = (h, w, 3)" by (rule vhs_degradation_shape_result)
next
  fix out assume "scan_lines_crt_shape (h, w, 3) i = Inr out"
  then show "out = (h, w, 3)" by (rule scan_lines_crt_shape_result)
next
  fix out assume "apply_motion_blur shape_backend (h, w, 3) i = Inr out"
  then show "out = (h, w, 3)" by (rule apply_motion_blur_shape)
next
  fix out assume "blend_layers_shape (h, w, 3) (h, w, 3) blend_mode layer_opacity = Inr out"
  then show "out = (h, w, 3)" by (rule blend_layers_shape_result)
next
  assume "50 \<le> h \<and> 50 \<le> w \<and> zoom p \<le> real h \<and> zoom p \<le> real w
            \<and> data_corruption_intensity p \<le> 1"
  then show "\<exists>g'. apply_effects shape_backend (h, w, 3) p effect_mode blend_mode layer_opacity g
                 = Inr ((h, w, 3), g')"
    by (intro apply_effects_total) simp_all
qed

theorem effects_preserve_shape_witness:
  "(50 :: nat) \<le> 60 \<and> (50 :: nat) \<le> 80
   \<and> (\<exists>g'. apply_effects shape_backend (60, 80, 3)
          \<lparr> zoom = 13 / 10, rotation = 5, hue_shift = 10, saturation = 12 / 10,
            brightness = 11 / 10, blur_intensity = 3 / 10, glitch_intensity = 6 / 10,
            artifacts_intensity = 8 / 10, pixel_sort_intensity = 6 / 10,
            kaleidoscope_intensity = 6 / 10, wave_distortion_intensity = 6 / 10,
            vhs_intensity = 6 / 10, posterization_intensity = 6 / 10,
            edge_detection_intensity = 6 / 10, data_corruption_intensity = 6 / 10,
            scan_lines_intensity = 6 / 10 \<rparr>
          ''layer'' ''overlay'' (8 / 10) [7 / 10, 2 / 10, 9 / 10] = Inr ((60, 80, 3), g'))
   \<and> zoom_frame shape_backend (60, 80, 3) 2 = Inr (60, 80, 3)"
proof -
  have z: "zoom_frame shape_backend (60, 80, 3) 2 = Inr (60, 30 + 50, 3)"
    by (simp add: zoom_frame_def shape_backend_def crop_shape_def slice_len_def slice_bound_def
        py_int_def resize_shape_def)
  show ?thesis
    using effects_preserve_shape [of 60 80
        "\<lparr> zoom = 13 / 10, rotation = 5, hue_shift = 10, saturation = 12 / 10,
           brightness = 11 / 10, blur_intensity = 3 / 10, glitch_intensity = 6 / 10,
           artifacts_intensity = 8 / 10, pixel_sort_intensity = 6 / 10,
           kaleidoscope_intensity = 6 / 10, wave_distortion_intensity = 6 / 10,
           vhs_intensity = 6 / 10, posterization_intensity = 6 / 10,
           edge_detection_intensity = 6 / 10, data_corruption_intensity = 6 / 10,
           scan_lines_intensity = 6 / 10 \<rparr>"
        "''layer''" "''overlay''" "8 / 10" "[7 / 10, 2 / 10, 9 / 10]" 2]
      z
    by simp
qed

end
